theory Spec2Isabelle
  imports Main
begin

section \<open>Active Directory client: data model\<close>

text \<open>
  A shallow embedding of \<^verbatim>\<open>pkg/auth/providers/activedirectory/activedirectory_client.go\<close>.
  Go strings are byte sequences and are modelled as \<open>string\<close> (a list of 8-bit characters).
  A nil slice and an empty slice are both the empty list: the code only takes their length and
  ranges over them. Indices and lengths (Go \<^verbatim>\<open>int\<close>) are natural numbers: the only arithmetic
  on them is \<^verbatim>\<open>i + 50\<close> below the length of a slice held in memory, which cannot overflow.
  Logging calls (\<^verbatim>\<open>logrus\<close>) have no effect on results and are left out, as is closing
  connections.
\<close>

subsection \<open>Principals, directory entries, configuration\<close>

text \<open>\<^verbatim>\<open>v3.Principal\<close>, restricted to the fields this file reads or writes;
  \<^verbatim>\<open>ObjectMeta.Name\<close> is the principal's id.\<close>

record Principal =
  ObjectMeta_Name :: string
  DisplayName :: string
  LoginName :: string
  PrincipalType :: string
  Me :: bool
  MemberOf :: bool
  Provider :: string

text \<open>The zero value \<^verbatim>\<open>v3.Principal{}\<close>.\<close>

definition Principal_zero :: Principal where
  "Principal_zero =
     \<lparr>ObjectMeta_Name = [], DisplayName = [], LoginName = [], PrincipalType = [],
      Me = False, MemberOf = False, Provider = []\<rparr>"

text \<open>\<^verbatim>\<open>ldapv2.EntryAttribute\<close> and \<^verbatim>\<open>ldapv2.Entry\<close>.\<close>

record EntryAttribute =
  Name :: string
  Values :: "string list"

record Entry =
  DN :: string
  Attributes :: "EntryAttribute list"

text \<open>\<^verbatim>\<open>v3.ActiveDirectoryConfig\<close>, the fields this file reads.\<close>

record ActiveDirectoryConfig =
  Enabled :: bool
  ServiceAccountUsername :: string
  ServiceAccountPassword :: string
  DefaultLoginDomain :: string
  UserSearchBase :: string
  GroupSearchBase :: string
  UserObjectClass :: string
  GroupObjectClass :: string
  UserNameAttribute :: string
  UserLoginAttribute :: string
  GroupNameAttribute :: string
  UserSearchAttribute :: string
  GroupSearchAttribute :: string
  AccessMode :: string
  AllowedPrincipalIDs :: "string list"

text \<open>\<^verbatim>\<open>v3public.BasicLogin\<close>.\<close>

record BasicLogin =
  Username :: string
  Password :: string

text \<open>\<^verbatim>\<open>ldapv2.SearchRequest\<close> as \<^verbatim>\<open>ldapv2.NewSearchRequest\<close> fills it (the controls
  argument is always nil here).\<close>

datatype SearchScope = ScopeBaseObject | ScopeWholeSubtree

datatype DerefAliases = NeverDerefAliases

record SearchRequest =
  BaseDN :: string
  Scope :: SearchScope
  Deref :: DerefAliases
  SizeLimit :: nat
  TimeLimit :: nat
  TypesOnly :: bool
  Filter :: string
  ReqAttributes :: "string list"

definition NewSearchRequest ::
  "string \<Rightarrow> SearchScope \<Rightarrow> DerefAliases \<Rightarrow> nat \<Rightarrow> nat \<Rightarrow> bool \<Rightarrow> string \<Rightarrow> string list
     \<Rightarrow> SearchRequest" where
  "NewSearchRequest base sc da slimit tlimit ty flt attrs =
     \<lparr>BaseDN = base, Scope = sc, Deref = da, SizeLimit = slimit, TimeLimit = tlimit, TypesOnly = ty,
      Filter = flt, ReqAttributes = attrs\<rparr>"

subsection \<open>Errors and results\<close>

text \<open>The \<^verbatim>\<open>httperror\<close> codes the file uses. An error built by \<^verbatim>\<open>fmt.Errorf\<close> carries no
  code.\<close>

datatype ErrorCode = Unauthorized | MissingRequired | NotFound | ServerError

text \<open>
  Go error values by the way they are built: \<open>LdapError\<close> is a \<^verbatim>\<open>*ldapv2.Error\<close> with its
  result code (a \<^verbatim>\<open>uint8\<close>) and message, \<open>OtherError\<close> any error of another dynamic type,
  \<open>Errorf\<close> is \<^verbatim>\<open>fmt.Errorf\<close> with its format and arguments, \<open>Wrapf\<close> is \<^verbatim>\<open>errors.Wrapf\<close>,
  \<open>APIError\<close> is \<^verbatim>\<open>httperror.NewAPIError\<close> (no cause) or \<^verbatim>\<open>httperror.WrapAPIError\<close>.
\<close>

datatype go_error =
    LdapError nat string
  | OtherError string
  | Errorf string "fmt_arg list"
  | Wrapf go_error string "fmt_arg list"
  | APIError ErrorCode string "go_error option"
and fmt_arg = ArgS string | ArgE go_error

text \<open>The classification a caller can read off an error: the code of an API error, none
  for any other error value.\<close>

fun error_code :: "go_error \<Rightarrow> ErrorCode option" where
  "error_code (APIError c _ _) = Some c"
| "error_code _ = None"

definition LDAPResultNoSuchObject :: nat where
  "LDAPResultNoSuchObject = 32"

definition LDAPResultInvalidCredentials :: nat where
  "LDAPResultInvalidCredentials = 49"

text \<open>\<^verbatim>\<open>ldapv2.IsErrorWithCode\<close>: a type assertion to \<^verbatim>\<open>*ldapv2.Error\<close> and a comparison
  of the result code.\<close>

fun IsErrorWithCode :: "go_error \<Rightarrow> nat \<Rightarrow> bool" where
  "IsErrorWithCode (LdapError rc _) c = (rc = c)"
| "IsErrorWithCode _ c = False"

text \<open>The type assertion \<^verbatim>\<open>err.(*ldapv2.Error)\<close> followed by a read of the result
  code: \<open>None\<close> when the assertion fails.\<close>

fun ldapResultCode :: "go_error \<Rightarrow> nat option" where
  "ldapResultCode (LdapError rc _) = Some rc"
| "ldapResultCode _ = None"

text \<open>What a call does: it returns its value, returns an error (the other return values
  are then zero values, or values its callers in this file discard), or panics.\<close>

datatype 'a result = Ok 'a | Err go_error | Panic string

subsection \<open>The directory and the other collaborators\<close>

text \<open>
  The operations issued on directory connections, in order. The directory's answer to an
  operation may depend on everything issued before it, so each answer is a function of the
  events so far.
\<close>

datatype event =
    EvDial
  | EvBind string string
  | EvSearch SearchRequest
  | EvSearchWithPaging SearchRequest nat

record world =
  conn_Dial :: "event list \<Rightarrow> go_error option"
  conn_Bind :: "event list \<Rightarrow> string \<Rightarrow> string \<Rightarrow> go_error option"
  conn_Search :: "event list \<Rightarrow> SearchRequest \<Rightarrow> go_error + Entry list"
  conn_SearchWithPaging ::
    "event list \<Rightarrow> SearchRequest \<Rightarrow> nat \<Rightarrow> Entry list option \<times> go_error option"

text \<open>
  Declarations this file uses and does not contain: the package's constants
  (\<^verbatim>\<open>Name\<close>, \<^verbatim>\<open>UserScope\<close>, \<^verbatim>\<open>GroupScope\<close>, \<^verbatim>\<open>scopes\<close>, \<^verbatim>\<open>MemberOfAttribute\<close>,
  \<^verbatim>\<open>ObjectClassAttribute\<close>), the helpers of \<^verbatim>\<open>pkg/auth/providers/common/ldap\<close>,
  \<^verbatim>\<open>strings.EqualFold\<close>, \<^verbatim>\<open>ldapv2.ParseDN\<close> (the attribute type and value pairs of each
  relative name) and the user manager's \<^verbatim>\<open>CheckAccess\<close>. They are parameters of the model.
\<close>

record env =
  pkg_Name :: string
  UserScope :: string
  GroupScope :: string
  scopes :: "string list"
  MemberOfAttribute :: string
  ObjectClassAttribute :: string
  EqualFold :: "string \<Rightarrow> string \<Rightarrow> bool"
  IsType :: "EntryAttribute list \<Rightarrow> string \<Rightarrow> bool"
  HasPermission :: "EntryAttribute list \<Rightarrow> ActiveDirectoryConfig \<Rightarrow> bool"
  GetUserExternalID :: "string \<Rightarrow> string \<Rightarrow> string"
  GetUserSearchAttributes :: "string \<Rightarrow> string \<Rightarrow> ActiveDirectoryConfig \<Rightarrow> string list"
  GetGroupSearchAttributes :: "string \<Rightarrow> string \<Rightarrow> ActiveDirectoryConfig \<Rightarrow> string list"
  ParseDN :: "string \<Rightarrow> go_error + (string \<times> string) list list"
  CheckAccess ::
    "string \<Rightarrow> string list \<Rightarrow> Principal \<Rightarrow> Principal list \<Rightarrow> bool \<times> go_error option"

section \<open>Attribute mapping\<close>

text \<open>
  The loop of the user branch of \<^verbatim>\<open>attributesToPrincipal\<close> over the entry's attributes,
  on the pair \<open>(accountName, login)\<close>. \<^verbatim>\<open>attr.Values[0]\<close> of the login attribute is read
  with no length check: on an empty value list Go panics.
\<close>

fun user_attr_loop ::
  "ActiveDirectoryConfig \<Rightarrow> string \<Rightarrow> EntryAttribute list \<Rightarrow> string \<times> string
     \<Rightarrow> (string \<times> string) result" where
  "user_attr_loop config externalID [] (accountName, login) = Ok (accountName, login)"
| "user_attr_loop config externalID (attr # attribs) (accountName, login) =
     (let accountName' =
        (if Name attr = UserNameAttribute config
         then (if length (Values attr) \<noteq> 0 then Values attr ! 0 else externalID)
         else accountName)
      in if Name attr = UserLoginAttribute config
         then (if length (Values attr) = 0
               then Panic ''index out of range''
               else user_attr_loop config externalID attribs (accountName', Values attr ! 0))
         else user_attr_loop config externalID attribs (accountName', login))"

text \<open>The loop of the group branch: the \<^verbatim>\<open>else\<close> belongs to the test of the attribute's
  name, so every attribute that is not the login attribute sets \<open>login\<close> to the account name
  found so far.\<close>

fun group_attr_loop ::
  "ActiveDirectoryConfig \<Rightarrow> string \<Rightarrow> EntryAttribute list \<Rightarrow> string \<times> string
     \<Rightarrow> string \<times> string" where
  "group_attr_loop config externalID [] (accountName, login) = (accountName, login)"
| "group_attr_loop config externalID (attr # attribs) (accountName, login) =
     (let accountName' =
        (if Name attr = GroupNameAttribute config
         then (if length (Values attr) \<noteq> 0 then Values attr ! 0 else externalID)
         else accountName)
      in if Name attr = UserLoginAttribute config
         then (if length (Values attr) > 0 \<and> Values attr ! 0 \<noteq> []
               then group_attr_loop config externalID attribs (accountName', Values attr ! 0)
               else group_attr_loop config externalID attribs (accountName', login))
         else group_attr_loop config externalID attribs (accountName', accountName'))"

text \<open>\<^verbatim>\<open>attributesToPrincipal\<close>: \<open>Ok None\<close> is the return \<^verbatim>\<open>nil, nil\<close>. The function never
  returns an error.\<close>

definition attributesToPrincipal ::
  "env \<Rightarrow> ActiveDirectoryConfig \<Rightarrow> EntryAttribute list \<Rightarrow> string \<Rightarrow> string
     \<Rightarrow> Principal option result" where
  "attributesToPrincipal e config attribs dnStr scope =
     (let externalID = dnStr; externalIDType = scope in
      if IsType e attribs (UserObjectClass config) then
        (case user_attr_loop config externalID attribs ([], []) of
           Panic m \<Rightarrow> Panic m
         | Err x \<Rightarrow> Err x
         | Ok (accountName, login) \<Rightarrow>
             Ok (Some \<lparr>ObjectMeta_Name = externalIDType @ ''://'' @ externalID,
                       DisplayName = accountName, LoginName = login, PrincipalType = ''user'',
                       Me = False, MemberOf = False, Provider = pkg_Name e\<rparr>))
      else if IsType e attribs (GroupObjectClass config) then
        (case group_attr_loop config externalID attribs ([], []) of
           (accountName, login) \<Rightarrow>
             Ok (Some \<lparr>ObjectMeta_Name = externalIDType @ ''://'' @ externalID,
                       DisplayName = accountName, LoginName = login, PrincipalType = ''group'',
                       Me = False, MemberOf = False, Provider = pkg_Name e\<rparr>))
      else Ok None)"

section \<open>Strings and search filters\<close>

definition backslash :: char where
  "backslash = CHR 0x5C"

text \<open>\<^verbatim>\<open>strings.SplitN(s, sep, 2)\<close> for a separator of one byte: the part before the first
  separator and the part after it, or the string itself when it has no separator.\<close>

definition SplitN2 :: "string \<Rightarrow> char \<Rightarrow> string list" where
  "SplitN2 s sep =
     (if sep \<in> set s then [takeWhile (\<lambda>c. c \<noteq> sep) s, tl (dropWhile (\<lambda>c. c \<noteq> sep) s)]
      else [s])"

text \<open>\<^verbatim>\<open>strings.Split(s, sep)\<close> for a separator of one byte.\<close>

fun Split :: "string \<Rightarrow> char \<Rightarrow> string list" where
  "Split [] sep = [[]]"
| "Split (c # cs) sep =
     (if c = sep then [] # Split cs sep
      else (case Split cs sep of [] \<Rightarrow> [[c]] | p # ps \<Rightarrow> (c # p) # ps))"

text \<open>
  Modelled from the spec: \<^verbatim>\<open>ldapv2.EscapeFilter\<close> (package \<^verbatim>\<open>gopkg.in/ldap.v2\<close>) and
  \<^verbatim>\<open>ldap.EscapeLDAPSearchFilter\<close> (\<^verbatim>\<open>pkg/auth/providers/common/ldap\<close>) are not in the
  sources. The spec has untrusted input "escaped per the directory filter-escaping rules":
  each of the filter metacharacters (backslash, asterisk, both parentheses) and NUL is replaced by a backslash and the
  two hexadecimal digits of its code; every other byte is kept.
\<close>

definition escape_byte :: "char \<Rightarrow> string" where
  "escape_byte c =
     (if c = backslash then backslash # ''5c''
      else if c = CHR ''*'' then backslash # ''2a''
      else if c = CHR ''('' then backslash # ''28''
      else if c = CHR '')'' then backslash # ''29''
      else if c = CHR 0x00 then backslash # ''00''
      else [c])"

definition EscapeFilter :: "string \<Rightarrow> string" where
  "EscapeFilter s = concat (map escape_byte s)"

definition EscapeLDAPSearchFilter :: "string \<Rightarrow> string" where
  "EscapeLDAPSearchFilter s = concat (map escape_byte s)"

text \<open>The account name of a login (\<^verbatim>\<open>samName\<close> in \<^verbatim>\<open>loginUser\<close>) and the user search
  filter built from it.\<close>

definition samName :: "string \<Rightarrow> string" where
  "samName username =
     (if backslash \<in> set username then SplitN2 username backslash ! 1 else username)"

definition loginQuery :: "ActiveDirectoryConfig \<Rightarrow> string \<Rightarrow> string" where
  "loginQuery config username =
     ''('' @ UserLoginAttribute config @ ''='' @ EscapeFilter (samName username) @ '')''"

text \<open>The filter of \<^verbatim>\<open>getGroupPrincipals\<close>: the loop appends one clause per DN.\<close>

definition groupQuery :: "env \<Rightarrow> ActiveDirectoryConfig \<Rightarrow> string list \<Rightarrow> string" where
  "groupQuery e config groupDN =
     (let flt = ''('' @ ObjectClassAttribute e @ ''='' @ GroupObjectClass config @ '')'';
          query = foldl (\<lambda>q attrib. q @ ''(distinguishedName='' @ EscapeFilter attrib @ '')'')
                    ''(|'' groupDN;
          query = query @ '')''
      in ''(&'' @ flt @ query @ '')'')"

section \<open>Group resolution\<close>

text \<open>The loop of \<^verbatim>\<open>getGroupPrincipals\<close> over the entries found. A mapping error or a nil
  principal skips the entry. \<^verbatim>\<open>reflect.DeepEqual(principal, nilPrincipal)\<close> compares a
  \<^verbatim>\<open>*v3.Principal\<close> with a \<^verbatim>\<open>[]v3.Principal\<close>: values of different types are never
  deeply equal, so every mapped principal is appended.\<close>

fun group_entries_loop ::
  "env \<Rightarrow> ActiveDirectoryConfig \<Rightarrow> Entry list \<Rightarrow> Principal list \<Rightarrow> Principal list result" where
  "group_entries_loop e config [] principals = Ok principals"
| "group_entries_loop e config (en # entries) principals =
     (case attributesToPrincipal e config (Attributes en) (DN en) (GroupScope e) of
        Panic m \<Rightarrow> Panic m
      | Err x \<Rightarrow> group_entries_loop e config entries principals
      | Ok None \<Rightarrow> group_entries_loop e config entries principals
      | Ok (Some pr) \<Rightarrow>
          group_entries_loop e config entries (principals @ [pr\<lparr>MemberOf := True\<rparr>]))"

text \<open>The search request of \<^verbatim>\<open>getGroupPrincipals\<close>, rooted at the group search base, or
  at the user search base when no group search base is configured.\<close>

definition groupSearchDomain :: "ActiveDirectoryConfig \<Rightarrow> string" where
  "groupSearchDomain config =
     (if GroupSearchBase config \<noteq> [] then GroupSearchBase config else UserSearchBase config)"

definition groupRequest :: "env \<Rightarrow> ActiveDirectoryConfig \<Rightarrow> string list \<Rightarrow> SearchRequest" where
  "groupRequest e config groupDN =
     NewSearchRequest (groupSearchDomain config) ScopeWholeSubtree NeverDerefAliases 0 0 False
       (groupQuery e config groupDN)
       (GetGroupSearchAttributes e (MemberOfAttribute e) (ObjectClassAttribute e) config)"

definition getGroupPrincipals ::
  "env \<Rightarrow> world \<Rightarrow> ActiveDirectoryConfig \<Rightarrow> string list \<Rightarrow> event list
     \<Rightarrow> Principal list result \<times> event list" where
  "getGroupPrincipals e w config groupDN tr =
     (let serviceAccountUsername =
            GetUserExternalID e (ServiceAccountUsername config) (DefaultLoginDomain config);
          err = conn_Bind w tr serviceAccountUsername (ServiceAccountPassword config);
          tr1 = tr @ [EvBind serviceAccountUsername (ServiceAccountPassword config)]
      in case err of
           Some er \<Rightarrow>
             if IsErrorWithCode er LDAPResultInvalidCredentials \<and> Enabled config
             then (Ok (map (\<lambda>dn. \<lparr>ObjectMeta_Name = GroupScope e @ ''://'' @ dn,
                                    DisplayName = dn, LoginName = dn,
                                    PrincipalType = GroupScope e, Me = False, MemberOf = True,
                                    Provider = []\<rparr>) groupDN), tr1)
             else (Err (Errorf ''Error in ldap bind: %v'' [ArgE er]), tr1)
         | None \<Rightarrow>
             (let query = groupQuery e config groupDN;
                  searchDomain = groupSearchDomain config;
                  search = groupRequest e config groupDN;
                  tr2 = tr1 @ [EvSearch search]
              in case conn_Search w tr1 search of
                   Inl er \<Rightarrow>
                     if ldapResultCode er = Some 32
                     then (Err (APIError NotFound (searchDomain @ '' not found'') None), tr2)
                     else (Err (APIError ServerError ''Internal server error''
                             (Some (Wrapf er ''server returned error for search %v %v: %v''
                                      [ArgS (BaseDN search), ArgS query, ArgE er]))), tr2)
                 | Inr entries \<Rightarrow> (group_entries_loop e config entries [], tr2)))"

text \<open>\<^verbatim>\<open>min\<close> of the source.\<close>

definition min_go :: "nat \<Rightarrow> nat \<Rightarrow> nat" where
  "min_go a b = (if a < b then a else b)"

text \<open>The slice expression \<^verbatim>\<open>xs[i:j]\<close> for \<open>i \<le> j \<le> length xs\<close>, the only way the loop
  below uses it.\<close>

definition slice :: "'a list \<Rightarrow> nat \<Rightarrow> nat \<Rightarrow> 'a list" where
  "slice xs i j = take (j - i) (drop i xs)"

text \<open>The batching loop of \<^verbatim>\<open>getPrincipalsFromSearchResult\<close>:
  \<^verbatim>\<open>for i := 0; i < len(memberOf); i += 50\<close>. A failed batch ends the loop.\<close>

function group_batches_loop ::
  "env \<Rightarrow> world \<Rightarrow> ActiveDirectoryConfig \<Rightarrow> string list \<Rightarrow> nat \<Rightarrow> Principal list \<Rightarrow> event list
     \<Rightarrow> Principal list result \<times> event list" where
  "group_batches_loop e w config memberOf i groupPrincipals tr =
     (if i < length memberOf then
        (let batch = slice memberOf i (min_go (i + 50) (length memberOf)) in
         case getGroupPrincipals e w config batch tr of
           (Err er, tr') \<Rightarrow> (Err er, tr')
         | (Panic m, tr') \<Rightarrow> (Panic m, tr')
         | (Ok groupPrincipalListBatch, tr') \<Rightarrow>
             group_batches_loop e w config memberOf (i + 50)
               (groupPrincipals @ groupPrincipalListBatch) tr')
      else (Ok groupPrincipals, tr))"
  by pat_completeness auto
termination
  by (relation "measure (\<lambda>(e, w, config, memberOf, i, gp, tr). length memberOf - i)") auto

declare group_batches_loop.simps [simp del]

text \<open>\<^verbatim>\<open>entry.GetAttributeValues(name)\<close> of the LDAP library: the values of the first
  attribute of that name, an empty slice when there is none.\<close>

fun GetAttributeValues :: "EntryAttribute list \<Rightarrow> string \<Rightarrow> string list" where
  "GetAttributeValues [] attribute = []"
| "GetAttributeValues (attr # attrs) attribute =
     (if Name attr = attribute then Values attr else GetAttributeValues attrs attribute)"

text \<open>The loop that sets \<^verbatim>\<open>isType\<close> in \<^verbatim>\<open>getPrincipalsFromSearchResult\<close>.\<close>

fun isType_loop :: "env \<Rightarrow> ActiveDirectoryConfig \<Rightarrow> string list \<Rightarrow> bool \<Rightarrow> bool" where
  "isType_loop e config [] isType = isType"
| "isType_loop e config (obj # objectClass) isType =
     isType_loop e config objectClass
       (if EqualFold e obj (UserObjectClass config) then True else isType)"

text \<open>\<^verbatim>\<open>getPrincipalsFromSearchResult\<close>, on the entries of the search result. On an error
  after the user was mapped the source also returns the principals built so far, which
  \<^verbatim>\<open>loginUser\<close> discards.\<close>

definition getPrincipalsFromSearchResult ::
  "env \<Rightarrow> world \<Rightarrow> ActiveDirectoryConfig \<Rightarrow> Entry list \<Rightarrow> event list
     \<Rightarrow> (Principal \<times> Principal list) result \<times> event list" where
  "getPrincipalsFromSearchResult e w config entries tr =
     (case entries of
        [] \<Rightarrow> (Panic ''index out of range'', tr)
      | entry # _ \<Rightarrow>
          if \<not> HasPermission e (Attributes entry) config
          then (Err (Errorf ''Permission denied'' []), tr)
          else
            (let memberOf = GetAttributeValues (Attributes entry) (MemberOfAttribute e);
                 objectClass = GetAttributeValues (Attributes entry) (ObjectClassAttribute e);
                 isType = isType_loop e config objectClass False
             in if \<not> isType then (Ok (Principal_zero, []), tr)
                else
                  (case attributesToPrincipal e config (Attributes entry) (DN entry)
                          (UserScope e) of
                     Panic m \<Rightarrow> (Panic m, tr)
                   | Err er \<Rightarrow> (Err er, tr)
                   | Ok None \<Rightarrow> (Panic ''nil pointer dereference'', tr)
                   | Ok (Some user) \<Rightarrow>
                       (let userPrincipal = user\<lparr>Me := True\<rparr> in
                        if length memberOf \<noteq> 0 then
                          (case conn_Dial w tr of
                             Some er \<Rightarrow> (Err er, tr @ [EvDial])
                           | None \<Rightarrow>
                               (case group_batches_loop e w config memberOf 0 [] (tr @ [EvDial]) of
                                  (Err er, tr') \<Rightarrow> (Err er, tr')
                                | (Panic m, tr') \<Rightarrow> (Panic m, tr')
                                | (Ok groupPrincipals, tr') \<Rightarrow>
                                    (Ok (userPrincipal, groupPrincipals), tr')))
                        else (Ok (userPrincipal, []), tr)))))"

section \<open>Login\<close>

definition userRecord ::
  "env \<Rightarrow> world \<Rightarrow> ActiveDirectoryConfig \<Rightarrow> SearchRequest \<Rightarrow> event list
     \<Rightarrow> (Principal \<times> Principal list) result \<times> event list" where
  "userRecord e w config search tr =
     (let tr1 = tr @ [EvSearch search] in
      case conn_Search w tr search of
        Inl er \<Rightarrow> (Err er, tr1)
      | Inr entries \<Rightarrow>
          if length entries < 1
          then (Err (Errorf ''Cannot locate user information for %s'' [ArgS (Filter search)]), tr1)
          else if length entries > 1
          then (Err (Errorf ''ldap user search found more than one result'' []), tr1)
          else getPrincipalsFromSearchResult e w config entries tr1)"

text \<open>The service account check of \<^verbatim>\<open>loginUser\<close>, made when the provider is not enabled:
  the error it returns, if any.\<close>

definition serviceAccountCheck ::
  "env \<Rightarrow> world \<Rightarrow> ActiveDirectoryConfig \<Rightarrow> event list \<Rightarrow> go_error option \<times> event list" where
  "serviceAccountCheck e w config tr =
     (if \<not> Enabled config then
        (if ServiceAccountPassword config = []
         then (Some (APIError MissingRequired ''service account password not provided'' None), tr)
         else
           (let sausername =
                  GetUserExternalID e (ServiceAccountUsername config) (DefaultLoginDomain config);
                tr1 = tr @ [EvBind sausername (ServiceAccountPassword config)]
            in case conn_Bind w tr sausername (ServiceAccountPassword config) of
                 Some er \<Rightarrow>
                   if IsErrorWithCode er LDAPResultInvalidCredentials
                   then (Some (APIError Unauthorized ''authentication failed'' (Some er)), tr1)
                   else (Some (APIError ServerError ''server error while authenticating''
                                 (Some er)), tr1)
               | None \<Rightarrow> (None, tr1)))
      else (None, tr))"

text \<open>The user search of \<^verbatim>\<open>loginUser\<close>.\<close>

definition loginRequest :: "env \<Rightarrow> ActiveDirectoryConfig \<Rightarrow> string \<Rightarrow> SearchRequest" where
  "loginRequest e config username =
     NewSearchRequest (UserSearchBase config) ScopeWholeSubtree NeverDerefAliases 0 0 False
       (loginQuery config username)
       (GetUserSearchAttributes e (MemberOfAttribute e) (ObjectClassAttribute e) config)"

definition loginUser ::
  "env \<Rightarrow> world \<Rightarrow> ActiveDirectoryConfig \<Rightarrow> BasicLogin \<Rightarrow> event list
     \<Rightarrow> (Principal \<times> Principal list \<times> (string \<rightharpoonup> string)) result \<times> event list" where
  "loginUser e w config adCredential tr =
     (let username = Username adCredential; password = Password adCredential in
      if password = []
      then (Err (APIError MissingRequired ''password not provided'' None), tr)
      else
        (let externalID = GetUserExternalID e username (DefaultLoginDomain config) in
         case conn_Dial w tr of
           Some er \<Rightarrow> (Err er, tr @ [EvDial])
         | None \<Rightarrow>
             (case serviceAccountCheck e w config (tr @ [EvDial]) of
                (Some er, tr2) \<Rightarrow> (Err er, tr2)
              | (None, tr2) \<Rightarrow>
                  (let tr3 = tr2 @ [EvBind externalID password] in
                   case conn_Bind w tr2 externalID password of
                     Some er \<Rightarrow>
                       if IsErrorWithCode er LDAPResultInvalidCredentials
                       then (Err (APIError Unauthorized ''authentication failed'' (Some er)), tr3)
                       else (Err (APIError ServerError ''server error while authenticating''
                                    (Some er)), tr3)
                   | None \<Rightarrow>
                       (let search = loginRequest e config username
                        in case userRecord e w config search tr3 of
                             (Err er, tr4) \<Rightarrow> (Err er, tr4)
                           | (Panic m, tr4) \<Rightarrow> (Panic m, tr4)
                           | (Ok (userPrincipal, groupPrincipals), tr4) \<Rightarrow>
                               (case CheckAccess e (AccessMode config) (AllowedPrincipalIDs config)
                                       userPrincipal groupPrincipals of
                                  (allowed, Some er) \<Rightarrow> (Err er, tr4)
                                | (allowed, None) \<Rightarrow>
                                    if \<not> allowed
                                    then (Err (APIError Unauthorized ''unauthorized'' None), tr4)
                                    else (Ok (userPrincipal, groupPrincipals, Map.empty),
                                          tr4)))))))"

section \<open>Lookup by distinguished name\<close>

text \<open>The object-class filter and the base-scope search request of \<^verbatim>\<open>getPrincipal\<close>.\<close>

definition lookupFilter :: "env \<Rightarrow> ActiveDirectoryConfig \<Rightarrow> string \<Rightarrow> string" where
  "lookupFilter e config scope =
     (if EqualFold e (UserScope e) scope
      then ''('' @ ObjectClassAttribute e @ ''='' @ UserObjectClass config @ '')''
      else ''('' @ ObjectClassAttribute e @ ''='' @ GroupObjectClass config @ '')'')"

definition lookupRequest ::
  "env \<Rightarrow> ActiveDirectoryConfig \<Rightarrow> string \<Rightarrow> string \<Rightarrow> SearchRequest" where
  "lookupRequest e config distinguishedName scope =
     (if EqualFold e (UserScope e) scope
      then NewSearchRequest distinguishedName ScopeBaseObject NeverDerefAliases 0 0 False
             (lookupFilter e config scope)
             (GetUserSearchAttributes e (MemberOfAttribute e) (ObjectClassAttribute e) config)
      else NewSearchRequest distinguishedName ScopeBaseObject NeverDerefAliases 0 0 False
             (lookupFilter e config scope)
             (GetGroupSearchAttributes e (MemberOfAttribute e) (ObjectClassAttribute e) config))"

text \<open>The attributes \<^verbatim>\<open>getPrincipal\<close> builds from the parsed DN: one single-valued
  attribute per attribute of each relative name.\<close>

definition dnAttributes :: "(string \<times> string) list list \<Rightarrow> EntryAttribute list" where
  "dnAttributes rdns = map (\<lambda>(ty, v). \<lparr>Name = ty, Values = [v]\<rparr>) (concat rdns)"

definition getPrincipal ::
  "env \<Rightarrow> world \<Rightarrow> ActiveDirectoryConfig \<Rightarrow> string \<Rightarrow> string \<Rightarrow> event list
     \<Rightarrow> Principal option result \<times> event list" where
  "getPrincipal e w config distinguishedName scope tr =
     (if \<not> (scope \<in> set (scopes e)) then (Err (Errorf ''Invalid scope'' []), tr)
      else
        (case ParseDN e distinguishedName of
           Inl er \<Rightarrow> (Err er, tr)
         | Inr rdns \<Rightarrow>
             (let attribs = dnAttributes rdns in
              if \<not> IsType e attribs scope \<and> \<not> HasPermission e attribs config
              then (Ok None, tr)
              else
                (let flt = lookupFilter e config scope
                 in case conn_Dial w tr of
                      Some er \<Rightarrow> (Err er, tr @ [EvDial])
                    | None \<Rightarrow>
                        (let serviceAccountUsername =
                               GetUserExternalID e (ServiceAccountUsername config)
                                 (DefaultLoginDomain config);
                             tr1 = tr @ [EvDial];
                             tr2 = tr1 @ [EvBind serviceAccountUsername
                                            (ServiceAccountPassword config)]
                         in case conn_Bind w tr1 serviceAccountUsername
                                   (ServiceAccountPassword config) of
                              Some er \<Rightarrow>
                                if IsErrorWithCode er LDAPResultInvalidCredentials \<and> Enabled config
                                then
                                  (let kind =
                                     (if EqualFold e (UserScope e) scope then ''user''
                                      else if EqualFold e (GroupScope e) scope then ''group''
                                      else [])
                                   in (Ok (Some \<lparr>ObjectMeta_Name = scope @ ''://'' @ distinguishedName,
                                                  DisplayName = distinguishedName,
                                                  LoginName = distinguishedName,
                                                  PrincipalType = kind, Me = False,
                                                  MemberOf = False, Provider = []\<rparr>), tr2))
                                else (Err (Errorf ''Error in ldap bind: %v'' [ArgE er]), tr2)
                            | None \<Rightarrow>
                                (let search = lookupRequest e config distinguishedName scope;
                                     tr3 = tr2 @ [EvSearch search]
                                 in case conn_Search w tr2 search of
                                      Inl er \<Rightarrow>
                                        if ldapResultCode er = Some 32
                                        then (Err (APIError NotFound
                                                     (distinguishedName @ '' not found'') None), tr3)
                                        else (Err (APIError ServerError ''Internal server error''
                                                (Some (Wrapf er
                                                   ''server returned error for search %v %v: %v''
                                                   [ArgS (BaseDN search), ArgS flt, ArgE er]))), tr3)
                                    | Inr entries \<Rightarrow>
                                        if length entries < 1
                                        then (Err (Errorf ''No identities can be retrieved'' []), tr3)
                                        else if length entries > 1
                                        then (Err (Errorf ''More than one result found'' []), tr3)
                                        else
                                          (let entry = entries ! 0 in
                                           if \<not> HasPermission e (Attributes entry) config
                                           then (Err (Errorf ''Permission denied'' []), tr3)
                                           else
                                             (case attributesToPrincipal e config (Attributes entry)
                                                     distinguishedName scope of
                                                Panic m \<Rightarrow> (Panic m, tr3)
                                              | Err er \<Rightarrow> (Err er, tr3)
                                              | Ok None \<Rightarrow>
                                                  (Err (Errorf ''Principal not returned for LDAP'' []),
                                                   tr3)
                                              | Ok (Some pr) \<Rightarrow> (Ok (Some pr), tr3)))))))))"

section \<open>Free-text search\<close>

text \<open>The loop of \<^verbatim>\<open>searchLdap\<close> over the entries: \<^verbatim>\<open>*principal\<close> is read with no nil
  check.\<close>

fun search_entries_loop ::
  "env \<Rightarrow> ActiveDirectoryConfig \<Rightarrow> string \<Rightarrow> Entry list \<Rightarrow> Principal list
     \<Rightarrow> Principal list result" where
  "search_entries_loop e config scope [] principals = Ok principals"
| "search_entries_loop e config scope (entry # entries) principals =
     (case attributesToPrincipal e config (Attributes entry) (DN entry) scope of
        Panic m \<Rightarrow> Panic m
      | Err er \<Rightarrow> Err er
      | Ok None \<Rightarrow> Panic ''nil pointer dereference''
      | Ok (Some pr) \<Rightarrow> search_entries_loop e config scope entries (principals @ [pr]))"

text \<open>What \<^verbatim>\<open>searchLdap\<close> does once the paged search is not answered by an early return:
  \<^verbatim>\<open>results.Entries\<close> is read whether or not the search failed.\<close>

definition searchLdap_results ::
  "env \<Rightarrow> ActiveDirectoryConfig \<Rightarrow> string \<Rightarrow> Entry list option \<Rightarrow> Principal list result" where
  "searchLdap_results e config scope results =
     (case results of
        None \<Rightarrow> Panic ''nil pointer dereference''
      | Some entries \<Rightarrow> search_entries_loop e config scope entries [])"

text \<open>The search request of \<^verbatim>\<open>searchLdap\<close>.\<close>

definition pagedRequest ::
  "env \<Rightarrow> ActiveDirectoryConfig \<Rightarrow> string \<Rightarrow> string \<Rightarrow> SearchRequest" where
  "pagedRequest e config query scope =
     (let searchDomain = UserSearchBase config in
      if EqualFold e (UserScope e) scope
      then NewSearchRequest searchDomain ScopeWholeSubtree NeverDerefAliases 0 0 False query
             (GetUserSearchAttributes e (MemberOfAttribute e) (ObjectClassAttribute e) config)
      else NewSearchRequest
             (if GroupSearchBase config \<noteq> [] then GroupSearchBase config else searchDomain)
             ScopeWholeSubtree NeverDerefAliases 0 0 False query
             (GetGroupSearchAttributes e (MemberOfAttribute e) (ObjectClassAttribute e) config))"

definition searchLdap ::
  "env \<Rightarrow> world \<Rightarrow> ActiveDirectoryConfig \<Rightarrow> string \<Rightarrow> string \<Rightarrow> event list
     \<Rightarrow> Principal list result \<times> event list" where
  "searchLdap e w config query scope tr =
     (let search = pagedRequest e config query scope
      in case conn_Dial w tr of
           Some er \<Rightarrow> (Err er, tr @ [EvDial])
         | None \<Rightarrow>
             (let serviceAccountUsername =
                    GetUserExternalID e (ServiceAccountUsername config) (DefaultLoginDomain config);
                  tr1 = tr @ [EvDial];
                  tr2 = tr1 @ [EvBind serviceAccountUsername (ServiceAccountPassword config)]
              in case conn_Bind w tr1 serviceAccountUsername (ServiceAccountPassword config) of
                   Some er \<Rightarrow> (Err (Errorf ''Error %v in ldap bind'' [ArgE er]), tr2)
                 | None \<Rightarrow>
                     (let tr3 = tr2 @ [EvSearchWithPaging search 1000] in
                      case conn_SearchWithPaging w tr2 search 1000 of
                        (results, None) \<Rightarrow> (searchLdap_results e config scope results, tr3)
                      | (results, Some er) \<Rightarrow>
                          (case ldapResultCode er of
                             Some rc \<Rightarrow>
                               if rc \<noteq> LDAPResultNoSuchObject
                               then (Err (Errorf
                                            ''When searching ldap, Failed to search: %s, error: %#v''
                                            [ArgS query, ArgE er]), tr3)
                               else (searchLdap_results e config scope results, tr3)
                           | None \<Rightarrow> (searchLdap_results e config scope results, tr3)))))"

text \<open>The filters of \<^verbatim>\<open>searchUser\<close> and \<^verbatim>\<open>searchGroup\<close>; \<open>name\<close> is the search text as
  \<^verbatim>\<open>searchPrincipals\<close> escaped it.\<close>

definition userSearchQuery :: "env \<Rightarrow> ActiveDirectoryConfig \<Rightarrow> string \<Rightarrow> string" where
  "userSearchQuery e config name =
     (let srchAttributes = Split (UserSearchAttribute config) (CHR ''|'');
          query = ''(&('' @ ObjectClassAttribute e @ ''='' @ UserObjectClass config @ '')'';
          srchAttrs = foldl (\<lambda>sa attr. sa @ ''('' @ attr @ ''='' @ name @ ''*)'') ''(|''
                        srchAttributes
      in query @ srchAttrs @ ''))'')"

definition groupSearchQuery :: "env \<Rightarrow> ActiveDirectoryConfig \<Rightarrow> string \<Rightarrow> string" where
  "groupSearchQuery e config name =
     ''(&('' @ GroupSearchAttribute config @ ''=*'' @ name @ ''*)('' @ ObjectClassAttribute e
       @ ''='' @ GroupObjectClass config @ ''))''"

definition searchUser ::
  "env \<Rightarrow> world \<Rightarrow> ActiveDirectoryConfig \<Rightarrow> string \<Rightarrow> event list
     \<Rightarrow> Principal list result \<times> event list" where
  "searchUser e w config name tr =
     searchLdap e w config (userSearchQuery e config name) (UserScope e) tr"

definition searchGroup ::
  "env \<Rightarrow> world \<Rightarrow> ActiveDirectoryConfig \<Rightarrow> string \<Rightarrow> event list
     \<Rightarrow> Principal list result \<times> event list" where
  "searchGroup e w config name tr =
     searchLdap e w config (groupSearchQuery e config name) (GroupScope e) tr"

definition searchPrincipals ::
  "env \<Rightarrow> world \<Rightarrow> ActiveDirectoryConfig \<Rightarrow> string \<Rightarrow> string \<Rightarrow> event list
     \<Rightarrow> Principal list result \<times> event list" where
  "searchPrincipals e w config name0 principalType tr =
     (let name = EscapeLDAPSearchFilter name0;
          users =
            (if principalType = [] \<or> principalType = ''user''
             then searchUser e w config name tr
             else (Ok [], tr))
      in case users of
           (Err er, tr1) \<Rightarrow> (Err er, tr1)
         | (Panic m, tr1) \<Rightarrow> (Panic m, tr1)
         | (Ok principals, tr1) \<Rightarrow>
             if principalType = [] \<or> principalType = ''group''
             then (case searchGroup e w config name tr1 of
                     (Err er, tr2) \<Rightarrow> (Err er, tr2)
                   | (Panic m, tr2) \<Rightarrow> (Panic m, tr2)
                   | (Ok princs, tr2) \<Rightarrow> (Ok (principals @ princs), tr2))
             else (Ok principals, tr1))"

section \<open>A concrete directory\<close>

text \<open>
  Concrete collaborators, used to run the model on inputs. The values of the package's
  constants and the behaviour of the helpers follow the spec where it describes them.
\<close>

definition lower_ascii :: "char \<Rightarrow> char" where
  "lower_ascii c =
     (case map_of (zip ''ABCDEFGHIJKLMNOPQRSTUVWXYZ'' ''abcdefghijklmnopqrstuvwxyz'') c of
        Some l \<Rightarrow> l
      | None \<Rightarrow> c)"

text \<open>Equality up to the case of ASCII letters, standing for \<^verbatim>\<open>strings.EqualFold\<close>.\<close>

definition EqualFold_ascii :: "string \<Rightarrow> string \<Rightarrow> bool" where
  "EqualFold_ascii s t = (map lower_ascii s = map lower_ascii t)"

text \<open>Modelled from the spec: \<^verbatim>\<open>ldap.IsType\<close> (\<^verbatim>\<open>pkg/auth/providers/common/ldap\<close>) is not in
  the sources. The spec has the kind of an entry decided by "checking whether the entry's
  object-class values contain the configured" class, by a "case-insensitive match".\<close>

definition IsType_spec :: "EntryAttribute list \<Rightarrow> string \<Rightarrow> bool" where
  "IsType_spec attribs varType =
     list_ex (\<lambda>attrib. Name attrib = ''objectClass''
                \<and> list_ex (\<lambda>v. EqualFold_ascii v varType) (Values attrib)) attribs"

text \<open>Modelled from the spec: \<^verbatim>\<open>ldap.GetUserExternalID\<close> (\<^verbatim>\<open>pkg/auth/providers/common/ldap\<close>)
  is not in the sources. The spec has the external id "constructed by combining a raw username
  with a configured default login-domain when the username carries no domain qualifier".\<close>

definition GetUserExternalID_spec :: "string \<Rightarrow> string \<Rightarrow> string" where
  "GetUserExternalID_spec username loginDomain =
     (if backslash \<in> set username then username
      else if loginDomain \<noteq> [] then loginDomain @ [backslash] @ username
      else username)"

text \<open>A reader of distinguished names without escapes: one attribute per comma-separated
  component, split at its first equals sign.\<close>

definition ParseDN_simple :: "string \<Rightarrow> go_error + (string \<times> string) list list" where
  "ParseDN_simple dn =
     Inr (map (\<lambda>rdn. [(takeWhile (\<lambda>c. c \<noteq> CHR ''='') rdn,
                        tl (dropWhile (\<lambda>c. c \<noteq> CHR ''='') rdn))])
            (Split dn (CHR '','')))"

definition sample_env :: env where
  "sample_env =
     \<lparr>pkg_Name = ''activedirectory'', UserScope = ''user'', GroupScope = ''group'',
      scopes = [''user'', ''group''], MemberOfAttribute = ''memberOf'',
      ObjectClassAttribute = ''objectClass'', EqualFold = EqualFold_ascii,
      IsType = IsType_spec, HasPermission = (\<lambda>attribs config. True),
      GetUserExternalID = GetUserExternalID_spec,
      GetUserSearchAttributes =
        (\<lambda>m oc config. [m, oc, UserObjectClass config, UserLoginAttribute config,
                          UserNameAttribute config]),
      GetGroupSearchAttributes =
        (\<lambda>m oc config. [m, oc, GroupObjectClass config, UserLoginAttribute config,
                          GroupNameAttribute config, GroupSearchAttribute config]),
      ParseDN = ParseDN_simple,
      CheckAccess = (\<lambda>mode allowed user groups. (True, None))\<rparr>"

definition sample_config :: ActiveDirectoryConfig where
  "sample_config =
     \<lparr>Enabled = True, ServiceAccountUsername = ''svc'', ServiceAccountPassword = ''s3cret'',
      DefaultLoginDomain = ''CORP'', UserSearchBase = ''ou=users,dc=example,dc=com'',
      GroupSearchBase = [], UserObjectClass = ''person'', GroupObjectClass = ''group'',
      UserNameAttribute = ''name'', UserLoginAttribute = ''sAMAccountName'',
      GroupNameAttribute = ''name'', UserSearchAttribute = ''sAMAccountName|sn|givenName'',
      GroupSearchAttribute = ''sAMAccountName'', AccessMode = ''unrestricted'',
      AllowedPrincipalIDs = []\<rparr>"

text \<open>A directory whose answers do not depend on the history: every connection opens, and
  binds, searches and paged searches are answered by the given functions.\<close>

definition sample_world ::
  "(string \<Rightarrow> string \<Rightarrow> go_error option) \<Rightarrow> (SearchRequest \<Rightarrow> go_error + Entry list)
     \<Rightarrow> (SearchRequest \<Rightarrow> Entry list option \<times> go_error option) \<Rightarrow> world" where
  "sample_world bindf searchf pagedf =
     \<lparr>conn_Dial = (\<lambda>tr. None), conn_Bind = (\<lambda>tr. bindf), conn_Search = (\<lambda>tr. searchf),
      conn_SearchWithPaging = (\<lambda>tr req n. pagedf req)\<rparr>"

text \<open>Sample entries: a user, a user whose login attribute has no value, and a group whose
  login attribute comes before its name.\<close>

definition alice :: Entry where
  "alice =
     \<lparr>DN = ''cn=alice,ou=users,dc=example,dc=com'',
      Attributes =
        [\<lparr>Name = ''objectClass'', Values = [''top'', ''person'']\<rparr>,
         \<lparr>Name = ''name'', Values = [''Alice'']\<rparr>,
         \<lparr>Name = ''sAMAccountName'', Values = [''alice'']\<rparr>]\<rparr>"

definition nologin :: Entry where
  "nologin =
     \<lparr>DN = ''cn=bob,ou=users,dc=example,dc=com'',
      Attributes =
        [\<lparr>Name = ''objectClass'', Values = [''top'', ''person'']\<rparr>,
         \<lparr>Name = ''name'', Values = [''Bob'']\<rparr>,
         \<lparr>Name = ''sAMAccountName'', Values = []\<rparr>]\<rparr>"

definition admins :: Entry where
  "admins =
     \<lparr>DN = ''cn=admins,ou=groups,dc=example,dc=com'',
      Attributes =
        [\<lparr>Name = ''objectClass'', Values = [''top'', ''group'']\<rparr>,
         \<lparr>Name = ''sAMAccountName'', Values = [''admins'']\<rparr>,
         \<lparr>Name = ''name'', Values = [''Administrators'']\<rparr>]\<rparr>"

text \<open>An entry that is neither a user nor a group.\<close>

definition printer :: Entry where
  "printer =
     \<lparr>DN = ''cn=lp0,ou=devices,dc=example,dc=com'',
      Attributes =
        [\<lparr>Name = ''objectClass'', Values = [''top'', ''device'']\<rparr>,
         \<lparr>Name = ''name'', Values = [''lp0'']\<rparr>]\<rparr>"

text \<open>Two logins: a bare account name, and an account name qualified by its domain.\<close>

definition alice_login :: BasicLogin where
  "alice_login = \<lparr>Username = ''alice'', Password = ''pw''\<rparr>"

definition corp_alice_login :: BasicLogin where
  "corp_alice_login = \<lparr>Username = ''CORP'' @ backslash # ''alice'', Password = ''pw''\<rparr>"

text \<open>A login whose username holds filter syntax.\<close>

definition inject_login :: BasicLogin where
  "inject_login = \<lparr>Username = ''a)(b'', Password = ''pw''\<rparr>"

text \<open>Directories: one that refuses every bind with invalid credentials, one that accepts
  every bind and answers every search with the given entries, and one that accepts every bind
  and fails every paged search with the given error and an empty partial result.\<close>

definition directory_rejecting_binds :: world where
  "directory_rejecting_binds =
     sample_world (\<lambda>u p. Some (LdapError 49 ''Invalid Credentials'')) (\<lambda>req. Inr [])
       (\<lambda>req. (Some [], None))"

definition directory_with :: "Entry list \<Rightarrow> world" where
  "directory_with entries =
     sample_world (\<lambda>u p. None) (\<lambda>req. Inr entries) (\<lambda>req. (Some entries, None))"

definition directory_paged_failing :: "go_error \<Rightarrow> world" where
  "directory_paged_failing er =
     sample_world (\<lambda>u p. None) (\<lambda>req. Inr []) (\<lambda>req. (Some [], Some er))"

section \<open>Notions used to state the properties\<close>

text \<open>The batches the spec describes: the list cut into consecutive pieces of 50, the last
  one shorter when the length is not a multiple of 50.\<close>

function batches :: "'a list \<Rightarrow> 'a list list" where
  "batches xs = (if xs = [] then [] else take 50 xs # batches (drop 50 xs))"
  by pat_completeness auto
termination
  by (relation "measure length") auto

declare batches.simps [simp del]

text \<open>One group query per batch, in order, stopping at the first batch that fails.\<close>

fun run_batches ::
  "env \<Rightarrow> world \<Rightarrow> ActiveDirectoryConfig \<Rightarrow> string list list \<Rightarrow> Principal list \<Rightarrow> event list
     \<Rightarrow> Principal list result \<times> event list" where
  "run_batches e w config [] groupPrincipals tr = (Ok groupPrincipals, tr)"
| "run_batches e w config (batch # rest) groupPrincipals tr =
     (case getGroupPrincipals e w config batch tr of
        (Err er, tr') \<Rightarrow> (Err er, tr')
      | (Panic m, tr') \<Rightarrow> (Panic m, tr')
      | (Ok ps, tr') \<Rightarrow> run_batches e w config rest (groupPrincipals @ ps) tr')"

text \<open>The bytes that have a meaning of their own in a search filter and that an escaped
  value must not contain: parentheses, the wildcard and NUL. (The backslash introduces an
  escape, so it does occur in escaped values.)\<close>

definition is_meta :: "char \<Rightarrow> bool" where
  "is_meta c = (c = CHR ''('' \<or> c = CHR '')'' \<or> c = CHR ''*'' \<or> c = CHR 0x00)"

text \<open>The value an escaped filter value stands for, read by the escaping rule backwards: a
  backslash must be followed by two hexadecimal digits and stands for the byte with that code,
  a parenthesis, asterisk or NUL that is not escaped is refused, every other byte stands for
  itself.\<close>

definition hex_val :: "char \<Rightarrow> nat option" where
  "hex_val c =
     map_of (zip ''0123456789abcdef'' [0, 1, 2, 3, 4, 5, 6, 7, 8, 9, 10, 11, 12, 13, 14, 15]) c"

fun unescape :: "string \<Rightarrow> string option" where
  "unescape [] = Some []"
| "unescape (c # cs) =
     (if c = backslash then
        (case cs of
           h1 # h2 # rest \<Rightarrow>
             (case (hex_val h1, hex_val h2) of
                (Some a, Some b) \<Rightarrow> map_option ((#) (char_of (16 * a + b))) (unescape rest)
              | _ \<Rightarrow> None)
         | _ \<Rightarrow> None)
      else if is_meta c then None
      else map_option ((#) c) (unescape cs))"

text \<open>The entries \<^verbatim>\<open>attributesToPrincipal\<close> maps to a principal: users whose login attribute,
  wherever it occurs, has a value, and groups.\<close>

definition mappable :: "env \<Rightarrow> ActiveDirectoryConfig \<Rightarrow> EntryAttribute list \<Rightarrow> bool" where
  "mappable e config attribs =
     (if IsType e attribs (UserObjectClass config)
      then list_all (\<lambda>attr. Name attr \<noteq> UserLoginAttribute config \<or> Values attr \<noteq> []) attribs
      else IsType e attribs (GroupObjectClass config))"

section \<open>Evaluating the concrete directory\<close>

lemmas sample_defs =
  sample_env_def sample_config_def sample_world_def directory_rejecting_binds_def
  directory_with_def directory_paged_failing_def IsType_spec_def EqualFold_ascii_def
  lower_ascii_def GetUserExternalID_spec_def backslash_def ParseDN_simple_def

section \<open>Group resolution: the degraded fallback\<close>

text \<open>
  Claim C1. For every batch of membership DNs (empty or not), if the service-account bind on
  the connection fails with an invalid-credentials error and the provider's \<^verbatim>\<open>Enabled\<close> flag
  is set, \<^verbatim>\<open>getGroupPrincipals\<close> returns without error one group principal per input DN, in
  order: display name and login name are the DN, the kind is the package's group scope, the
  id is the group scope followed by \<^verbatim>\<open>://\<close> and the DN, and the member-of mark is set. The
  only operation issued on the connection is the bind: no search is made.
\<close>

theorem getGroupPrincipals_fallback:
  assumes "conn_Bind w tr
             (GetUserExternalID e (ServiceAccountUsername config) (DefaultLoginDomain config))
             (ServiceAccountPassword config) = Some er"
    and "IsErrorWithCode er LDAPResultInvalidCredentials"
    and "Enabled config"
  shows "getGroupPrincipals e w config groupDN tr =
           (Ok (map (\<lambda>dn. \<lparr>ObjectMeta_Name = GroupScope e @ ''://'' @ dn, DisplayName = dn,
                             LoginName = dn, PrincipalType = GroupScope e, Me = False,
                             MemberOf = True, Provider = []\<rparr>) groupDN),
            tr @ [EvBind (GetUserExternalID e (ServiceAccountUsername config)
                            (DefaultLoginDomain config)) (ServiceAccountPassword config)])"
  using assms by (simp add: getGroupPrincipals_def)

theorem getGroupPrincipals_fallback_witness:
  "getGroupPrincipals sample_env directory_rejecting_binds sample_config
     [''cn=admins,dc=example,dc=com'', ''cn=devs,dc=example,dc=com'',
      ''cn=ops,dc=example,dc=com''] [] =
   (Ok [\<lparr>ObjectMeta_Name = ''group://cn=admins,dc=example,dc=com'',
          DisplayName = ''cn=admins,dc=example,dc=com'',
          LoginName = ''cn=admins,dc=example,dc=com'',
          PrincipalType = ''group'', Me = False, MemberOf = True, Provider = []\<rparr>,
        \<lparr>ObjectMeta_Name = ''group://cn=devs,dc=example,dc=com'',
          DisplayName = ''cn=devs,dc=example,dc=com'',
          LoginName = ''cn=devs,dc=example,dc=com'',
          PrincipalType = ''group'', Me = False, MemberOf = True, Provider = []\<rparr>,
        \<lparr>ObjectMeta_Name = ''group://cn=ops,dc=example,dc=com'',
          DisplayName = ''cn=ops,dc=example,dc=com'',
          LoginName = ''cn=ops,dc=example,dc=com'',
          PrincipalType = ''group'', Me = False, MemberOf = True, Provider = []\<rparr>],
    [EvBind (''CORP'' @ [backslash] @ ''svc'') ''s3cret''])"
  using getGroupPrincipals_fallback [of directory_rejecting_binds "[]" sample_env sample_config
      "LdapError 49 ''Invalid Credentials''"
      "[''cn=admins,dc=example,dc=com'', ''cn=devs,dc=example,dc=com'',
        ''cn=ops,dc=example,dc=com'']"]
  by (simp add: sample_defs LDAPResultInvalidCredentials_def)

section \<open>Group resolution: batching\<close>

lemma batches_Nil: "batches [] = []"
  by (subst batches.simps) simp

lemma batches_step: "xs \<noteq> [] \<Longrightarrow> batches xs = take 50 xs # batches (drop 50 xs)"
  by (subst batches.simps) simp





lemma slice_batch:
  "i < length xs \<Longrightarrow> slice xs i (min_go (i + 50) (length xs)) = take 50 (drop i xs)"
proof (cases "i + 50 < length xs")
  case True
  then show ?thesis by (simp add: slice_def min_go_def)
next
  case False
  assume "i < length xs"
  with False have "length (drop i xs) \<le> 50" by simp
  then have "take 50 (drop i xs) = drop i xs" by simp
  moreover have "take (length xs - i) (drop i xs) = drop i xs" by simp
  ultimately show ?thesis using False by (simp add: slice_def min_go_def)
qed

lemma loop_run_batches:
  "group_batches_loop e w config memberOf i acc tr =
     run_batches e w config (batches (drop i memberOf)) acc tr"
proof (induction e w config memberOf i acc tr rule: group_batches_loop.induct)
  case (1 e w config memberOf i groupPrincipals tr)
  show ?case
  proof (cases "i < length memberOf")
    case False
    then show ?thesis
      by (subst group_batches_loop.simps) (simp add: batches_Nil)
  next
    case True
    then have ne: "drop i memberOf \<noteq> []" by simp
    have dd: "drop 50 (drop i memberOf) = drop (i + 50) memberOf"
      by (simp add: add.commute)
    have bs: "batches (drop i memberOf) =
                take 50 (drop i memberOf) # batches (drop (i + 50) memberOf)"
      using batches_step [OF ne] dd by simp
    have sl: "slice memberOf i (min_go (i + 50) (length memberOf)) = take 50 (drop i memberOf)"
      using True by (rule slice_batch)
    show ?thesis
    proof (cases "getGroupPrincipals e w config (take 50 (drop i memberOf)) tr")
      case (Pair r tr')
      show ?thesis
      proof (cases r)
        case (Ok ps)
        have "group_batches_loop e w config memberOf (i + 50) (groupPrincipals @ ps) tr' =
                run_batches e w config (batches (drop (i + 50) memberOf)) (groupPrincipals @ ps) tr'"
          using 1 [OF True sl [symmetric] _ Ok] Pair sl by simp
        then show ?thesis
          by (subst group_batches_loop.simps) (simp add: True sl bs Pair Ok)
      next
        case (Err er)
        then show ?thesis
          by (subst group_batches_loop.simps) (simp add: True sl bs Pair)
      next
        case (Panic m)
        then show ?thesis
          by (subst group_batches_loop.simps) (simp add: True sl bs Pair)
      qed
    qed
  qed
qed





section \<open>Attribute mapping: what the loops leave in the login name\<close>

lemma user_attr_loop_panics:
  "\<exists>attr \<in> set attribs. Name attr = UserLoginAttribute config \<and> Values attr = [] \<Longrightarrow>
     user_attr_loop config externalID attribs st = Panic ''index out of range''"
proof (induction attribs arbitrary: st)
  case Nil
  then show ?case by simp
next
  case (Cons attr attribs)
  obtain accountName login where st: "st = (accountName, login)" by (cases st)
  show ?case
  proof (cases "Name attr = UserLoginAttribute config \<and> Values attr = []")
    case True
    then show ?thesis by (simp add: st Let_def)
  next
    case False
    with Cons.prems have "\<exists>a \<in> set attribs. Name a = UserLoginAttribute config \<and> Values a = []"
      by auto
    then show ?thesis using Cons.IH by (simp add: st Let_def)
  qed
qed

lemma user_attr_loop_returns:
  "list_all (\<lambda>attr. Name attr \<noteq> UserLoginAttribute config \<or> Values attr \<noteq> []) attribs \<Longrightarrow>
     \<exists>accountName login. user_attr_loop config externalID attribs st = Ok (accountName, login)"
proof (induction attribs arbitrary: st)
  case Nil
  then show ?case by (cases st) simp
next
  case (Cons attr attribs)
  obtain accountName login where st: "st = (accountName, login)" by (cases st)
  from Cons.prems have tl: "list_all (\<lambda>attr. Name attr \<noteq> UserLoginAttribute config \<or> Values attr \<noteq> []) attribs"
    and hd: "Name attr \<noteq> UserLoginAttribute config \<or> Values attr \<noteq> []" by simp_all
  show ?case using Cons.IH [OF tl] hd by (auto simp: st Let_def)
qed

text \<open>A user entry whose login attribute occurs with an empty value list makes the mapping
  panic, whatever else the entry holds.\<close>

lemma attributesToPrincipal_user_panics:
  assumes "IsType e attribs (UserObjectClass config)"
    and "\<exists>attr \<in> set attribs. Name attr = UserLoginAttribute config \<and> Values attr = []"
  shows "attributesToPrincipal e config attribs dnStr scope = Panic ''index out of range''"
  using assms by (simp add: attributesToPrincipal_def user_attr_loop_panics)

lemma attributesToPrincipal_mappable:
  assumes "mappable e config attribs"
  shows "\<exists>pr. attributesToPrincipal e config attribs dnStr scope = Ok (Some pr)
           \<and> ObjectMeta_Name pr = scope @ ''://'' @ dnStr"
proof (cases "IsType e attribs (UserObjectClass config)")
  case True
  with assms have "list_all (\<lambda>attr. Name attr \<noteq> UserLoginAttribute config \<or> Values attr \<noteq> []) attribs"
    by (simp add: mappable_def)
  from user_attr_loop_returns [OF this, of dnStr "([], [])"]
  obtain accountName login where "user_attr_loop config dnStr attribs ([], []) = Ok (accountName, login)"
    by blast
  with True show ?thesis by (simp add: attributesToPrincipal_def)
next
  case False
  with assms have "IsType e attribs (GroupObjectClass config)" by (simp add: mappable_def)
  with False show ?thesis
    by (cases "group_attr_loop config dnStr attribs ([], [])") (simp add: attributesToPrincipal_def)
qed

text \<open>
  Claim C9. The claim has the mapping return a principal for every user entry, also when
  the entry carries the login attribute with an empty value list. On the entry \<open>nologin\<close>
  (object classes \<^verbatim>\<open>top\<close> and \<^verbatim>\<open>person\<close>, a name, and \<^verbatim>\<open>sAMAccountName\<close> with no value)
  the unguarded read \<^verbatim>\<open>attr.Values[0]\<close> panics: no principal is returned.
\<close>

theorem attributesToPrincipal_nologin:
  "IsType sample_env (Attributes nologin) (UserObjectClass sample_config)
   \<and> attributesToPrincipal sample_env sample_config (Attributes nologin) (DN nologin)
       (UserScope sample_env) = Panic ''index out of range''"
  by (simp add: attributesToPrincipal_def nologin_def sample_defs)

lemma group_attr_loop_last:
  "Name attr \<noteq> UserLoginAttribute config \<Longrightarrow>
     \<exists>accountName. group_attr_loop config externalID (attribs @ [attr]) st = (accountName, accountName)"
proof (induction attribs arbitrary: st)
  case Nil
  then show ?case by (cases st) (simp add: Let_def)
next
  case (Cons a attribs)
  then show ?case by (cases st) (simp add: Let_def)
qed

text \<open>Whenever the last attribute of a group entry is not the login attribute, the login
  name is the display name, whatever the login attribute holds.\<close>

lemma attributesToPrincipal_group_last_attribute:
  assumes "\<not> IsType e (attribs @ [attr]) (UserObjectClass config)"
    and "IsType e (attribs @ [attr]) (GroupObjectClass config)"
    and "Name attr \<noteq> UserLoginAttribute config"
  shows "\<exists>pr. attributesToPrincipal e config (attribs @ [attr]) dnStr scope = Ok (Some pr)
           \<and> LoginName pr = DisplayName pr"
proof -
  from group_attr_loop_last [OF assms(3)]
  obtain accountName where
    "group_attr_loop config dnStr (attribs @ [attr]) ([], []) = (accountName, accountName)"
    by blast
  with assms(1,2) show ?thesis by (simp add: attributesToPrincipal_def)
qed

text \<open>
  Claim C4. The claim has the login name of a group equal to the first value of the login
  attribute whenever that value is present and not empty, in whatever order the attributes
  come. On the group \<open>admins\<close> the login attribute \<^verbatim>\<open>sAMAccountName\<close> holds \<^verbatim>\<open>admins\<close> and
  comes before the name attribute: the mapped login name is the display name
  \<^verbatim>\<open>Administrators\<close>.
\<close>

theorem attributesToPrincipal_admins:
  "\<not> IsType sample_env (Attributes admins) (UserObjectClass sample_config)
   \<and> IsType sample_env (Attributes admins) (GroupObjectClass sample_config)
   \<and> GetAttributeValues (Attributes admins) (UserLoginAttribute sample_config) = [''admins'']
   \<and> attributesToPrincipal sample_env sample_config (Attributes admins) (DN admins)
       (GroupScope sample_env) =
     Ok (Some \<lparr>ObjectMeta_Name = ''group://cn=admins,ou=groups,dc=example,dc=com'',
               DisplayName = ''Administrators'', LoginName = ''Administrators'',
               PrincipalType = ''group'', Me = False, MemberOf = False,
               Provider = ''activedirectory''\<rparr>)"
  by (simp add: attributesToPrincipal_def admins_def sample_defs Let_def)

section \<open>Login\<close>

lemma isType_loop_iff:
  "isType_loop e config objectClass b =
     (b \<or> (\<exists>obj \<in> set objectClass. EqualFold e obj (UserObjectClass config)))"
  by (induction objectClass arbitrary: b) auto

lemma getPrincipalsFromSearchResult_not_user:
  assumes "HasPermission e (Attributes entry) config"
    and "\<forall>obj \<in> set (GetAttributeValues (Attributes entry) (ObjectClassAttribute e)).
           \<not> EqualFold e obj (UserObjectClass config)"
  shows "getPrincipalsFromSearchResult e w config [entry] tr = (Ok (Principal_zero, []), tr)"
  using assms by (simp add: getPrincipalsFromSearchResult_def isType_loop_iff Let_def)

text \<open>
  Claim C10. During login, when the single entry the user search returns passes the
  permission check and none of its object-class values equals (under \<^verbatim>\<open>strings.EqualFold\<close>)
  the configured user object class, the user-record step returns the zero principal, no groups
  and no error, and \<^verbatim>\<open>loginUser\<close> goes on to \<^verbatim>\<open>CheckAccess\<close> with that empty principal: the
  outcome of the login is the outcome of the access check.
\<close>

theorem loginUser_not_user_type:
  assumes pw: "Password cred \<noteq> []"
    and dial: "conn_Dial w tr = None"
    and svc: "serviceAccountCheck e w config (tr @ [EvDial]) = (None, tr2)"
    and bind: "conn_Bind w tr2 (GetUserExternalID e (Username cred) (DefaultLoginDomain config))
                 (Password cred) = None"
    and tr3: "tr3 = tr2 @ [EvBind (GetUserExternalID e (Username cred) (DefaultLoginDomain config))
                             (Password cred)]"
    and found: "conn_Search w tr3 (loginRequest e config (Username cred)) = Inr [entry]"
    and perm: "HasPermission e (Attributes entry) config"
    and nouser: "\<forall>obj \<in> set (GetAttributeValues (Attributes entry) (ObjectClassAttribute e)).
                   \<not> EqualFold e obj (UserObjectClass config)"
  shows "userRecord e w config (loginRequest e config (Username cred)) tr3 =
           (Ok (Principal_zero, []), tr3 @ [EvSearch (loginRequest e config (Username cred))])
         \<and> loginUser e w config cred tr =
           (case CheckAccess e (AccessMode config) (AllowedPrincipalIDs config) Principal_zero [] of
              (allowed, Some er) \<Rightarrow> Err er
            | (allowed, None) \<Rightarrow>
                if allowed then Ok (Principal_zero, [], Map.empty)
                else Err (APIError Unauthorized ''unauthorized'' None),
            tr3 @ [EvSearch (loginRequest e config (Username cred))])"
proof -
  have ur: "userRecord e w config (loginRequest e config (Username cred)) tr3 =
              (Ok (Principal_zero, []), tr3 @ [EvSearch (loginRequest e config (Username cred))])"
    using found getPrincipalsFromSearchResult_not_user [OF perm nouser]
    by (simp add: userRecord_def Let_def)
  have "loginUser e w config cred tr =
          (case CheckAccess e (AccessMode config) (AllowedPrincipalIDs config) Principal_zero [] of
             (allowed, Some er) \<Rightarrow> Err er
           | (allowed, None) \<Rightarrow>
               if allowed then Ok (Principal_zero, [], Map.empty)
               else Err (APIError Unauthorized ''unauthorized'' None),
           tr3 @ [EvSearch (loginRequest e config (Username cred))])"
    using pw dial svc bind ur
    by (simp add: loginUser_def Let_def tr3 [symmetric] split: prod.splits option.splits)
  with ur show ?thesis by simp
qed

theorem loginUser_not_user_type_witness:
  "userRecord sample_env (directory_with [printer]) sample_config
     (loginRequest sample_env sample_config ''lp0'')
     [EvDial, EvBind (''CORP'' @ [backslash] @ ''lp0'') ''pw''] =
     (Ok (Principal_zero, []),
      [EvDial, EvBind (''CORP'' @ [backslash] @ ''lp0'') ''pw'',
       EvSearch (loginRequest sample_env sample_config ''lp0'')])
   \<and> loginUser sample_env (directory_with [printer]) sample_config
       \<lparr>Username = ''lp0'', Password = ''pw''\<rparr> [] =
     (Ok (Principal_zero, [], Map.empty),
      [EvDial, EvBind (''CORP'' @ [backslash] @ ''lp0'') ''pw'',
       EvSearch (loginRequest sample_env sample_config ''lp0'')])"
proof -
  let ?cred = "\<lparr>Username = ''lp0'', Password = ''pw''\<rparr>"
  let ?w = "directory_with [printer]"
  have pw: "Password ?cred \<noteq> []" by simp
  have dial: "conn_Dial ?w [] = None" by (simp add: sample_defs)
  have svc: "serviceAccountCheck sample_env ?w sample_config ([] @ [EvDial]) = (None, [EvDial])"
    by (simp add: serviceAccountCheck_def sample_defs)
  have bind: "conn_Bind ?w [EvDial]
                (GetUserExternalID sample_env (Username ?cred) (DefaultLoginDomain sample_config))
                (Password ?cred) = None"
    by (simp add: sample_defs)
  have tr3: "[EvDial, EvBind (''CORP'' @ [backslash] @ ''lp0'') ''pw''] =
               [EvDial] @ [EvBind (GetUserExternalID sample_env (Username ?cred)
                                     (DefaultLoginDomain sample_config)) (Password ?cred)]"
    by (simp add: sample_defs)
  have found: "conn_Search ?w [EvDial, EvBind (''CORP'' @ [backslash] @ ''lp0'') ''pw'']
                 (loginRequest sample_env sample_config (Username ?cred)) = Inr [printer]"
    by (simp add: sample_defs)
  have perm: "HasPermission sample_env (Attributes printer) sample_config"
    by (simp add: sample_defs)
  have nouser: "\<forall>obj \<in> set (GetAttributeValues (Attributes printer)
                                 (ObjectClassAttribute sample_env)).
                  \<not> EqualFold sample_env obj (UserObjectClass sample_config)"
    by (simp add: printer_def sample_defs)
  have ca: "CheckAccess sample_env (AccessMode sample_config) (AllowedPrincipalIDs sample_config)
              Principal_zero [] = (True, None)"
    by (simp add: sample_env_def)
  show ?thesis
    using loginUser_not_user_type [OF pw dial svc bind tr3 found perm nouser] ca
    by simp
qed

lemma loginUser_search_empty:
  assumes pw: "Password cred \<noteq> []"
    and dial: "conn_Dial w tr = None"
    and svc: "serviceAccountCheck e w config (tr @ [EvDial]) = (None, tr2)"
    and tr3: "tr3 = tr2 @ [EvBind (GetUserExternalID e (Username cred) (DefaultLoginDomain config))
                             (Password cred)]"
    and bind: "conn_Bind w tr2 (GetUserExternalID e (Username cred) (DefaultLoginDomain config))
                 (Password cred) = None"
    and none: "conn_Search w tr3 (loginRequest e config (Username cred)) = Inr []"
  shows "loginUser e w config cred tr =
           (Err (Errorf ''Cannot locate user information for %s''
                   [ArgS (loginQuery config (Username cred))]),
            tr3 @ [EvSearch (loginRequest e config (Username cred))])"
proof -
  have flt: "Filter (loginRequest e config (Username cred)) = loginQuery config (Username cred)"
    by (simp add: loginRequest_def NewSearchRequest_def)
  show ?thesis
    using pw dial svc bind none
    by (simp add: loginUser_def userRecord_def Let_def tr3 [symmetric] flt)
qed

lemma loginUser_bind_invalid:
  assumes pw: "Password cred \<noteq> []"
    and dial: "conn_Dial w tr = None"
    and svc: "serviceAccountCheck e w config (tr @ [EvDial]) = (None, tr2)"
    and tr3: "tr3 = tr2 @ [EvBind (GetUserExternalID e (Username cred) (DefaultLoginDomain config))
                             (Password cred)]"
    and bind: "conn_Bind w tr2 (GetUserExternalID e (Username cred) (DefaultLoginDomain config))
                 (Password cred) = Some er"
    and inv: "IsErrorWithCode er LDAPResultInvalidCredentials"
  shows "loginUser e w config cred tr =
           (Err (APIError Unauthorized ''authentication failed'' (Some er)), tr3)"
  using pw dial svc bind inv
  by (simp add: loginUser_def Let_def tr3 [symmetric])

lemma loginQuery_alice: "loginQuery sample_config ''alice'' = ''(sAMAccountName=alice)''"
  by (simp add: loginQuery_def samName_def EscapeFilter_def escape_byte_def sample_config_def
        backslash_def)

text \<open>
  Claim C3, as amended. For every login attempt that reaches the user bind: when the bind
  fails with invalid credentials the error returned is classified Unauthorized; when the bind
  succeeds and the user search finds no entry, the error returned is the one built by
  \<^verbatim>\<open>fmt.Errorf\<close> from the search filter, which has no classification. The two failures are
  told apart by the login result.
\<close>

theorem loginUser_failure_classes:
  assumes pw: "Password cred \<noteq> []"
    and dial: "conn_Dial w tr = None"
    and svc: "serviceAccountCheck e w config (tr @ [EvDial]) = (None, tr2)"
    and tr3: "tr3 = tr2 @ [EvBind (GetUserExternalID e (Username cred) (DefaultLoginDomain config))
                             (Password cred)]"
  shows "(\<forall>er. conn_Bind w tr2 (GetUserExternalID e (Username cred) (DefaultLoginDomain config))
                 (Password cred) = Some er
               \<and> IsErrorWithCode er LDAPResultInvalidCredentials \<longrightarrow>
            loginUser e w config cred tr =
              (Err (APIError Unauthorized ''authentication failed'' (Some er)), tr3)
            \<and> error_code (APIError Unauthorized ''authentication failed'' (Some er)) =
                Some Unauthorized)
         \<and> (conn_Bind w tr2 (GetUserExternalID e (Username cred) (DefaultLoginDomain config))
               (Password cred) = None
             \<and> conn_Search w tr3 (loginRequest e config (Username cred)) = Inr [] \<longrightarrow>
            loginUser e w config cred tr =
              (Err (Errorf ''Cannot locate user information for %s''
                      [ArgS (loginQuery config (Username cred))]),
               tr3 @ [EvSearch (loginRequest e config (Username cred))])
            \<and> error_code (Errorf ''Cannot locate user information for %s''
                             [ArgS (loginQuery config (Username cred))]) = None)"
proof -
  have flt: "Filter (loginRequest e config (Username cred)) = loginQuery config (Username cred)"
    by (simp add: loginRequest_def NewSearchRequest_def)
  show ?thesis
    using pw dial svc
    by (simp add: loginUser_def userRecord_def Let_def tr3 [symmetric] flt)
qed

theorem loginUser_failure_classes_witness:
  "loginUser sample_env directory_rejecting_binds sample_config alice_login [] =
     (Err (APIError Unauthorized ''authentication failed''
             (Some (LdapError 49 ''Invalid Credentials''))),
      [EvDial, EvBind (''CORP'' @ [backslash] @ ''alice'') ''pw''])
   \<and> loginUser sample_env (directory_with []) sample_config alice_login [] =
     (Err (Errorf ''Cannot locate user information for %s''
             [ArgS (loginQuery sample_config ''alice'')]),
      [EvDial, EvBind (''CORP'' @ [backslash] @ ''alice'') ''pw'',
       EvSearch (loginRequest sample_env sample_config ''alice'')])"
proof -
  have pw: "Password alice_login \<noteq> []" by (simp add: alice_login_def)
  have tr3: "[EvDial, EvBind (''CORP'' @ [backslash] @ ''alice'') ''pw''] =
               [EvDial] @ [EvBind (GetUserExternalID sample_env (Username alice_login)
                                     (DefaultLoginDomain sample_config)) (Password alice_login)]"
    by (simp add: alice_login_def sample_defs)
  have d1: "conn_Dial directory_rejecting_binds [] = None" by (simp add: sample_defs)
  have s1: "serviceAccountCheck sample_env directory_rejecting_binds sample_config ([] @ [EvDial]) =
              (None, [EvDial])"
    by (simp add: serviceAccountCheck_def sample_defs)
  have b1: "conn_Bind directory_rejecting_binds [EvDial]
              (GetUserExternalID sample_env (Username alice_login) (DefaultLoginDomain sample_config))
              (Password alice_login) = Some (LdapError 49 ''Invalid Credentials'')
            \<and> IsErrorWithCode (LdapError 49 ''Invalid Credentials'') LDAPResultInvalidCredentials"
    by (simp add: sample_defs LDAPResultInvalidCredentials_def)
  have d2: "conn_Dial (directory_with []) [] = None" by (simp add: sample_defs)
  have s2: "serviceAccountCheck sample_env (directory_with []) sample_config ([] @ [EvDial]) =
              (None, [EvDial])"
    by (simp add: serviceAccountCheck_def sample_defs)
  have b2: "conn_Bind (directory_with []) [EvDial]
              (GetUserExternalID sample_env (Username alice_login) (DefaultLoginDomain sample_config))
              (Password alice_login) = None
            \<and> conn_Search (directory_with [])
                [EvDial, EvBind (''CORP'' @ [backslash] @ ''alice'') ''pw'']
                (loginRequest sample_env sample_config (Username alice_login)) = Inr []"
    by (simp add: sample_defs)
  have u: "Username alice_login = ''alice''" by (simp add: alice_login_def)
  show ?thesis
    using loginUser_failure_classes [OF pw d1 s1 tr3] b1
      loginUser_failure_classes [OF pw d2 s2 tr3] b2
    by (simp only: u) simp
qed

text \<open>The claim as stated fails: with no matching entry the login error is not classified
  Unauthorized, while a refused password is.\<close>

theorem loginUser_failure_classes_counterexample:
  "fst (loginUser sample_env (directory_with []) sample_config alice_login []) =
     Err (Errorf ''Cannot locate user information for %s'' [ArgS ''(sAMAccountName=alice)''])
   \<and> error_code (Errorf ''Cannot locate user information for %s''
                    [ArgS ''(sAMAccountName=alice)'']) \<noteq> Some Unauthorized
   \<and> fst (loginUser sample_env directory_rejecting_binds sample_config alice_login []) =
     Err (APIError Unauthorized ''authentication failed''
            (Some (LdapError 49 ''Invalid Credentials'')))"
proof -
  have pw: "Password alice_login \<noteq> []" by (simp add: alice_login_def)
  have tr3: "[EvDial, EvBind (''CORP'' @ [backslash] @ ''alice'') ''pw''] =
               [EvDial] @ [EvBind (GetUserExternalID sample_env (Username alice_login)
                                     (DefaultLoginDomain sample_config)) (Password alice_login)]"
    by (simp add: alice_login_def sample_defs)
  have d1: "conn_Dial directory_rejecting_binds [] = None" by (simp add: sample_defs)
  have s1: "serviceAccountCheck sample_env directory_rejecting_binds sample_config ([] @ [EvDial]) =
              (None, [EvDial])"
    by (simp add: serviceAccountCheck_def sample_defs)
  have b1: "conn_Bind directory_rejecting_binds [EvDial]
              (GetUserExternalID sample_env (Username alice_login) (DefaultLoginDomain sample_config))
              (Password alice_login) = Some (LdapError 49 ''Invalid Credentials'')"
    by (simp add: sample_defs)
  have i1: "IsErrorWithCode (LdapError 49 ''Invalid Credentials'') LDAPResultInvalidCredentials"
    by (simp add: LDAPResultInvalidCredentials_def)
  have d2: "conn_Dial (directory_with []) [] = None" by (simp add: sample_defs)
  have s2: "serviceAccountCheck sample_env (directory_with []) sample_config ([] @ [EvDial]) =
              (None, [EvDial])"
    by (simp add: serviceAccountCheck_def sample_defs)
  have b2: "conn_Bind (directory_with []) [EvDial]
              (GetUserExternalID sample_env (Username alice_login) (DefaultLoginDomain sample_config))
              (Password alice_login) = None"
    by (simp add: sample_defs)
  have n2: "conn_Search (directory_with [])
                [EvDial, EvBind (''CORP'' @ [backslash] @ ''alice'') ''pw'']
                (loginRequest sample_env sample_config (Username alice_login)) = Inr []"
    by (simp add: sample_defs)
  have u: "Username alice_login = ''alice''" by (simp add: alice_login_def)
  show ?thesis
    using loginUser_search_empty [OF pw d2 s2 tr3 b2 n2]
      loginUser_bind_invalid [OF pw d1 s1 tr3 b1 i1]
    by (simp add: u loginQuery_alice)
qed

subsection \<open>Every operation extends the record of events\<close>

lemma getGroupPrincipals_trace:
  "\<exists>tr'. snd (getGroupPrincipals e w config groupDN tr) = tr @ tr'"
  by (simp add: getGroupPrincipals_def Let_def split: option.splits sum.splits)

lemma run_batches_trace:
  "\<exists>tr'. snd (run_batches e w config bs acc tr) = tr @ tr'"
proof (induction bs arbitrary: acc tr)
  case Nil
  then show ?case by simp
next
  case (Cons b bs)
  obtain r tr1 where g: "getGroupPrincipals e w config b tr = (r, tr1)"
    by (cases "getGroupPrincipals e w config b tr")
  from getGroupPrincipals_trace [of e w config b tr] g
  obtain t1 where t1: "tr1 = tr @ t1" by auto
  show ?case
  proof (cases r)
    case (Ok ps)
    from Cons.IH [of "acc @ ps" tr1]
    obtain t2 where "snd (run_batches e w config bs (acc @ ps) tr1) = tr1 @ t2" by blast
    then show ?thesis using g Ok t1 by simp
  next
    case (Err er)
    then show ?thesis using g t1 by simp
  next
    case (Panic m)
    then show ?thesis using g t1 by simp
  qed
qed

lemma group_batches_loop_trace:
  "\<exists>tr'. snd (group_batches_loop e w config memberOf i acc tr) = tr @ tr'"
  by (simp add: loop_run_batches run_batches_trace)

lemma getPrincipalsFromSearchResult_trace:
  "\<exists>tr'. snd (getPrincipalsFromSearchResult e w config entries tr) = tr @ tr'"
proof (cases entries)
  case Nil
  then show ?thesis by (simp add: getPrincipalsFromSearchResult_def)
next
  case (Cons entry rest)
  let ?m = "GetAttributeValues (Attributes entry) (MemberOfAttribute e)"
  obtain r t where l: "group_batches_loop e w config ?m 0 [] (tr @ [EvDial]) = (r, t)"
    by (cases "group_batches_loop e w config ?m 0 [] (tr @ [EvDial])")
  from group_batches_loop_trace [of e w config ?m 0 "[]" "tr @ [EvDial]"] l
  obtain t' where t: "t = tr @ [EvDial] @ t'" by auto
  show ?thesis
    using l t
    by (simp add: getPrincipalsFromSearchResult_def Cons Let_def
          split: result.splits option.splits)
qed

lemma userRecord_trace:
  "\<exists>tr'. snd (userRecord e w config search tr) = tr @ [EvSearch search] @ tr'"
proof -
  have "\<exists>tr'. snd (getPrincipalsFromSearchResult e w config entries (tr @ [EvSearch search])) =
          tr @ [EvSearch search] @ tr'" for entries
    using getPrincipalsFromSearchResult_trace [of e w config entries "tr @ [EvSearch search]"]
    by simp
  then show ?thesis
    by (simp add: userRecord_def Let_def split: sum.splits)
qed

lemma samName_split:
  assumes "backslash \<in> set username"
  shows "username = takeWhile (\<lambda>c. c \<noteq> backslash) username @ backslash # samName username"
proof -
  from assms have ne: "dropWhile (\<lambda>c. c \<noteq> backslash) username \<noteq> []"
    by (simp add: dropWhile_eq_Nil_conv)
  then have "hd (dropWhile (\<lambda>c. c \<noteq> backslash) username) = backslash"
    using hd_dropWhile [of "\<lambda>c. c \<noteq> backslash" username] by simp
  with ne have "dropWhile (\<lambda>c. c \<noteq> backslash) username =
                  backslash # tl (dropWhile (\<lambda>c. c \<noteq> backslash) username)"
    by (cases "dropWhile (\<lambda>c. c \<noteq> backslash) username") simp_all
  moreover have "samName username = tl (dropWhile (\<lambda>c. c \<noteq> backslash) username)"
    using assms by (simp add: samName_def SplitN2_def)
  ultimately show ?thesis
    using takeWhile_dropWhile_id [of "\<lambda>c. c \<noteq> backslash" username] by simp
qed

text \<open>
  Claim C7. For every login whose username contains the domain separator (a backslash) and that
  reaches the user search: the username is a prefix without separator, the separator, and the
  account name \<open>samName\<close>; the user bind is made with the external id built from the whole
  username, and the filter of the user search holds the escaped account name only.
\<close>

theorem loginUser_domain_separator:
  assumes sep: "backslash \<in> set (Username cred)"
    and pw: "Password cred \<noteq> []"
    and dial: "conn_Dial w tr = None"
    and svc: "serviceAccountCheck e w config (tr @ [EvDial]) = (None, tr2)"
    and bind: "conn_Bind w tr2 (GetUserExternalID e (Username cred) (DefaultLoginDomain config))
                 (Password cred) = None"
  shows "(\<exists>domain. Username cred = domain @ backslash # samName (Username cred)
                    \<and> backslash \<notin> set domain)
         \<and> (\<exists>rest. snd (loginUser e w config cred tr) =
               tr2 @ [EvBind (GetUserExternalID e (Username cred) (DefaultLoginDomain config))
                        (Password cred),
                      EvSearch (NewSearchRequest (UserSearchBase config) ScopeWholeSubtree
                                  NeverDerefAliases 0 0 False
                                  (''('' @ UserLoginAttribute config @ ''=''
                                     @ EscapeFilter (samName (Username cred)) @ '')'')
                                  (GetUserSearchAttributes e (MemberOfAttribute e)
                                     (ObjectClassAttribute e) config))] @ rest)"
proof
  have "backslash \<notin> set (takeWhile (\<lambda>c. c \<noteq> backslash) (Username cred))"
    by (auto dest: set_takeWhileD)
  with samName_split [OF sep]
  show "\<exists>domain. Username cred = domain @ backslash # samName (Username cred)
                  \<and> backslash \<notin> set domain"
    by blast
next
  let ?ext = "GetUserExternalID e (Username cred) (DefaultLoginDomain config)"
  let ?tr3 = "tr2 @ [EvBind ?ext (Password cred)]"
  let ?req = "loginRequest e config (Username cred)"
  obtain r t where ur: "userRecord e w config ?req ?tr3 = (r, t)"
    by (cases "userRecord e w config ?req ?tr3")
  from userRecord_trace [of e w config ?req ?tr3] ur
  obtain rest where t: "t = ?tr3 @ [EvSearch ?req] @ rest" by auto
  have "snd (loginUser e w config cred tr) = t"
    using pw dial svc bind ur
    by (simp add: loginUser_def Let_def split: result.splits prod.splits option.splits)
  then have "snd (loginUser e w config cred tr) = tr2 @ [EvBind ?ext (Password cred), EvSearch ?req] @ rest"
    using t by simp
  then show "\<exists>rest. snd (loginUser e w config cred tr) =
               tr2 @ [EvBind ?ext (Password cred),
                      EvSearch (NewSearchRequest (UserSearchBase config) ScopeWholeSubtree
                                  NeverDerefAliases 0 0 False
                                  (''('' @ UserLoginAttribute config @ ''=''
                                     @ EscapeFilter (samName (Username cred)) @ '')'')
                                  (GetUserSearchAttributes e (MemberOfAttribute e)
                                     (ObjectClassAttribute e) config))] @ rest"
    unfolding loginRequest_def loginQuery_def by blast
qed

lemma samName_corp_alice: "samName (''CORP'' @ backslash # ''alice'') = ''alice''"
  by (simp add: samName_def SplitN2_def backslash_def)

theorem loginUser_domain_separator_witness:
  "(\<exists>domain. ''CORP'' @ backslash # ''alice'' = domain @ backslash # ''alice''
              \<and> backslash \<notin> set domain)
   \<and> (\<exists>rest. snd (loginUser sample_env (directory_with [alice]) sample_config
                      corp_alice_login []) =
         [EvDial, EvBind (''CORP'' @ backslash # ''alice'') ''pw'',
          EvSearch (NewSearchRequest ''ou=users,dc=example,dc=com'' ScopeWholeSubtree
                      NeverDerefAliases 0 0 False ''(sAMAccountName=alice)''
                      [''memberOf'', ''objectClass'', ''person'', ''sAMAccountName'', ''name''])]
         @ rest)"
proof -
  have sep: "backslash \<in> set (Username corp_alice_login)"
    by (simp add: corp_alice_login_def)
  have pw: "Password corp_alice_login \<noteq> []"
    by (simp add: corp_alice_login_def)
  have dial: "conn_Dial (directory_with [alice]) [] = None"
    by (simp add: sample_defs)
  have svc: "serviceAccountCheck sample_env (directory_with [alice]) sample_config ([] @ [EvDial]) =
               (None, [EvDial])"
    by (simp add: serviceAccountCheck_def sample_defs)
  have bind: "conn_Bind (directory_with [alice]) [EvDial]
                (GetUserExternalID sample_env (Username corp_alice_login)
                   (DefaultLoginDomain sample_config))
                (Password corp_alice_login) = None"
    by (simp add: sample_defs)
  have u: "Username corp_alice_login = ''CORP'' @ backslash # ''alice''"
    and p: "Password corp_alice_login = ''pw''"
    by (simp_all add: corp_alice_login_def)
  have x: "GetUserExternalID sample_env (''CORP'' @ backslash # ''alice'')
             (DefaultLoginDomain sample_config) = ''CORP'' @ backslash # ''alice''"
    by (simp add: sample_env_def GetUserExternalID_spec_def)
  have q: "''('' @ UserLoginAttribute sample_config @ ''='' @ EscapeFilter ''alice'' @ '')'' =
             ''(sAMAccountName=alice)''"
    by (simp add: sample_config_def EscapeFilter_def escape_byte_def backslash_def)
  have a: "GetUserSearchAttributes sample_env (MemberOfAttribute sample_env)
             (ObjectClassAttribute sample_env) sample_config =
           [''memberOf'', ''objectClass'', ''person'', ''sAMAccountName'', ''name'']"
    and b: "UserSearchBase sample_config = ''ou=users,dc=example,dc=com''"
    by (simp_all add: sample_env_def sample_config_def)
  from loginUser_domain_separator [OF sep pw dial svc bind]
  show ?thesis
    unfolding u p samName_corp_alice x q a b by simp
qed

section \<open>Lookup by distinguished name: the number of entries found\<close>

lemma getPrincipal_search:
  assumes scope: "scope \<in> set (scopes e)"
    and dn: "ParseDN e distinguishedName = Inr rdns"
    and pre: "IsType e (dnAttributes rdns) scope \<or> HasPermission e (dnAttributes rdns) config"
    and dial: "conn_Dial w tr = None"
    and bind: "conn_Bind w (tr @ [EvDial])
                 (GetUserExternalID e (ServiceAccountUsername config) (DefaultLoginDomain config))
                 (ServiceAccountPassword config) = None"
    and tr2: "tr2 = tr @ [EvDial,
                EvBind (GetUserExternalID e (ServiceAccountUsername config)
                          (DefaultLoginDomain config)) (ServiceAccountPassword config)]"
    and search: "conn_Search w tr2 (lookupRequest e config distinguishedName scope) = Inr entries"
  shows "getPrincipal e w config distinguishedName scope tr =
           (if length entries < 1 then Err (Errorf ''No identities can be retrieved'' [])
            else if length entries > 1 then Err (Errorf ''More than one result found'' [])
            else if \<not> HasPermission e (Attributes (entries ! 0)) config
            then Err (Errorf ''Permission denied'' [])
            else (case attributesToPrincipal e config (Attributes (entries ! 0))
                         distinguishedName scope of
                    Panic m \<Rightarrow> Panic m
                  | Err er \<Rightarrow> Err er
                  | Ok None \<Rightarrow> Err (Errorf ''Principal not returned for LDAP'' [])
                  | Ok (Some pr) \<Rightarrow> Ok (Some pr)),
            tr2 @ [EvSearch (lookupRequest e config distinguishedName scope)])"
proof -
  have pre': "\<not> (\<not> IsType e (dnAttributes rdns) scope \<and> \<not> HasPermission e (dnAttributes rdns) config)"
    using pre by blast
  show ?thesis
    using scope dn pre' dial bind search
    by (simp add: getPrincipal_def Let_def tr2 split: result.splits option.splits)
qed

text \<open>
  Claim C2, as amended. For every exact lookup by distinguished name that reaches the
  search (a known scope, a DN that parses and passes the local check, a connection, a
  successful service-account bind) and whose base-scope search succeeds: no entry gives the
  error \<^verbatim>\<open>No identities can be retrieved\<close> and more than one entry gives the error
  \<^verbatim>\<open>More than one result found\<close>, both built by \<^verbatim>\<open>fmt.Errorf\<close> and so without any
  classification; exactly one entry that passes the permission check and that the mapping
  handles (a group, or a user whose login attribute has a value) gives a principal whose id is
  the scope, \<^verbatim>\<open>://\<close> and the DN.
\<close>

theorem getPrincipal_entry_counts:
  assumes scope: "scope \<in> set (scopes e)"
    and dn: "ParseDN e distinguishedName = Inr rdns"
    and pre: "IsType e (dnAttributes rdns) scope \<or> HasPermission e (dnAttributes rdns) config"
    and dial: "conn_Dial w tr = None"
    and bind: "conn_Bind w (tr @ [EvDial])
                 (GetUserExternalID e (ServiceAccountUsername config) (DefaultLoginDomain config))
                 (ServiceAccountPassword config) = None"
    and tr2: "tr2 = tr @ [EvDial,
                EvBind (GetUserExternalID e (ServiceAccountUsername config)
                          (DefaultLoginDomain config)) (ServiceAccountPassword config)]"
    and search: "conn_Search w tr2 (lookupRequest e config distinguishedName scope) = Inr entries"
  shows "(entries = [] \<longrightarrow>
            getPrincipal e w config distinguishedName scope tr =
              (Err (Errorf ''No identities can be retrieved'' []),
               tr2 @ [EvSearch (lookupRequest e config distinguishedName scope)])
            \<and> error_code (Errorf ''No identities can be retrieved'' []) = None)
         \<and> (1 < length entries \<longrightarrow>
            getPrincipal e w config distinguishedName scope tr =
              (Err (Errorf ''More than one result found'' []),
               tr2 @ [EvSearch (lookupRequest e config distinguishedName scope)])
            \<and> error_code (Errorf ''More than one result found'' []) = None)
         \<and> (\<forall>entry. entries = [entry] \<and> HasPermission e (Attributes entry) config
                    \<and> mappable e config (Attributes entry) \<longrightarrow>
              (\<exists>pr. getPrincipal e w config distinguishedName scope tr =
                      (Ok (Some pr),
                       tr2 @ [EvSearch (lookupRequest e config distinguishedName scope)])
                    \<and> ObjectMeta_Name pr = scope @ ''://'' @ distinguishedName))"
proof (intro conjI allI impI)
  assume "entries = []"
  then show "getPrincipal e w config distinguishedName scope tr =
              (Err (Errorf ''No identities can be retrieved'' []),
               tr2 @ [EvSearch (lookupRequest e config distinguishedName scope)])"
    using getPrincipal_search [OF scope dn pre dial bind tr2 search] by simp
next
  assume many: "1 < length entries"
  then have "entries \<noteq> []" by auto
  with many show "getPrincipal e w config distinguishedName scope tr =
              (Err (Errorf ''More than one result found'' []),
               tr2 @ [EvSearch (lookupRequest e config distinguishedName scope)])"
    using getPrincipal_search [OF scope dn pre dial bind tr2 search] by simp
next
  fix entry
  assume a: "entries = [entry] \<and> HasPermission e (Attributes entry) config
               \<and> mappable e config (Attributes entry)"
  then have m: "mappable e config (Attributes entry)" by simp
  from attributesToPrincipal_mappable [OF m, of distinguishedName scope]
  obtain pr where pr: "attributesToPrincipal e config (Attributes entry) distinguishedName scope =
                         Ok (Some pr)"
    and nm: "ObjectMeta_Name pr = scope @ ''://'' @ distinguishedName"
    by blast
  have "getPrincipal e w config distinguishedName scope tr =
          (Ok (Some pr), tr2 @ [EvSearch (lookupRequest e config distinguishedName scope)])"
    using getPrincipal_search [OF scope dn pre dial bind tr2 search] a pr by simp
  with nm show "\<exists>pr. getPrincipal e w config distinguishedName scope tr =
                      (Ok (Some pr),
                       tr2 @ [EvSearch (lookupRequest e config distinguishedName scope)])
                    \<and> ObjectMeta_Name pr = scope @ ''://'' @ distinguishedName"
    by blast
qed simp_all

lemma sample_lookup_reach:
  "''user'' \<in> set (scopes sample_env)"
  "ParseDN sample_env (DN alice) =
     Inr [[(''cn'', ''alice'')], [(''ou'', ''users'')], [(''dc'', ''example'')], [(''dc'', ''com'')]]"
  "IsType sample_env
     (dnAttributes [[(''cn'', ''alice'')], [(''ou'', ''users'')], [(''dc'', ''example'')],
                    [(''dc'', ''com'')]]) ''user''
   \<or> HasPermission sample_env
     (dnAttributes [[(''cn'', ''alice'')], [(''ou'', ''users'')], [(''dc'', ''example'')],
                    [(''dc'', ''com'')]]) sample_config"
  "conn_Dial (directory_with entries) [] = None"
  "conn_Bind (directory_with entries) ([] @ [EvDial])
     (GetUserExternalID sample_env (ServiceAccountUsername sample_config)
        (DefaultLoginDomain sample_config)) (ServiceAccountPassword sample_config) = None"
  "[EvDial, EvBind (''CORP'' @ backslash # ''svc'') ''s3cret''] =
     [] @ [EvDial, EvBind (GetUserExternalID sample_env (ServiceAccountUsername sample_config)
                             (DefaultLoginDomain sample_config))
                     (ServiceAccountPassword sample_config)]"
  "conn_Search (directory_with entries) tr req = Inr entries"
  by (simp_all add: sample_defs alice_def)

theorem getPrincipal_entry_counts_witness:
  "getPrincipal sample_env (directory_with []) sample_config (DN alice) ''user'' [] =
     (Err (Errorf ''No identities can be retrieved'' []),
      [EvDial, EvBind (''CORP'' @ backslash # ''svc'') ''s3cret'',
       EvSearch (lookupRequest sample_env sample_config (DN alice) ''user'')])
   \<and> getPrincipal sample_env (directory_with [alice, alice]) sample_config (DN alice)
       ''user'' [] =
     (Err (Errorf ''More than one result found'' []),
      [EvDial, EvBind (''CORP'' @ backslash # ''svc'') ''s3cret'',
       EvSearch (lookupRequest sample_env sample_config (DN alice) ''user'')])
   \<and> (\<exists>pr. getPrincipal sample_env (directory_with [alice]) sample_config (DN alice)
              ''user'' [] =
            (Ok (Some pr),
             [EvDial, EvBind (''CORP'' @ backslash # ''svc'') ''s3cret'',
              EvSearch (lookupRequest sample_env sample_config (DN alice) ''user'')])
          \<and> ObjectMeta_Name pr = ''user://cn=alice,ou=users,dc=example,dc=com'')"
proof -
  note t0 = getPrincipal_entry_counts [OF sample_lookup_reach(1) sample_lookup_reach(2)
          sample_lookup_reach(3) sample_lookup_reach(4) sample_lookup_reach(5)
          sample_lookup_reach(6) sample_lookup_reach(7), of "[]"]
  note t2 = getPrincipal_entry_counts [OF sample_lookup_reach(1) sample_lookup_reach(2)
          sample_lookup_reach(3) sample_lookup_reach(4) sample_lookup_reach(5)
          sample_lookup_reach(6) sample_lookup_reach(7), of "[alice, alice]"]
  note t1 = getPrincipal_entry_counts [OF sample_lookup_reach(1) sample_lookup_reach(2)
          sample_lookup_reach(3) sample_lookup_reach(4) sample_lookup_reach(5)
          sample_lookup_reach(6) sample_lookup_reach(7), of "[alice]"]
  have two: "1 < length [alice, alice]" by simp
  have one: "[alice] = [alice] \<and> HasPermission sample_env (Attributes alice) sample_config
               \<and> mappable sample_env sample_config (Attributes alice)"
    by (simp add: mappable_def alice_def sample_defs)
  from t0 have r0: "getPrincipal sample_env (directory_with []) sample_config (DN alice) ''user'' [] =
     (Err (Errorf ''No identities can be retrieved'' []),
      [EvDial, EvBind (''CORP'' @ backslash # ''svc'') ''s3cret''] @
      [EvSearch (lookupRequest sample_env sample_config (DN alice) ''user'')])"
    by blast
  from t2 two have r2: "getPrincipal sample_env (directory_with [alice, alice]) sample_config
       (DN alice) ''user'' [] =
     (Err (Errorf ''More than one result found'' []),
      [EvDial, EvBind (''CORP'' @ backslash # ''svc'') ''s3cret''] @
      [EvSearch (lookupRequest sample_env sample_config (DN alice) ''user'')])"
    by blast
  from t1 one obtain pr where
    r1: "getPrincipal sample_env (directory_with [alice]) sample_config (DN alice) ''user'' [] =
            (Ok (Some pr),
             [EvDial, EvBind (''CORP'' @ backslash # ''svc'') ''s3cret''] @
             [EvSearch (lookupRequest sample_env sample_config (DN alice) ''user'')])"
    and nm: "ObjectMeta_Name pr = ''user'' @ ''://'' @ DN alice"
    by blast
  from nm have "ObjectMeta_Name pr = ''user://cn=alice,ou=users,dc=example,dc=com''"
    by (simp add: alice_def)
  with r0 r2 r1 show ?thesis by simp
qed

text \<open>The claim as stated fails: neither error carries the NotFound code, or any code.\<close>

theorem getPrincipal_entry_counts_counterexample:
  "fst (getPrincipal sample_env (directory_with []) sample_config (DN alice) ''user'' []) =
     Err (Errorf ''No identities can be retrieved'' [])
   \<and> error_code (Errorf ''No identities can be retrieved'' []) \<noteq> Some NotFound
   \<and> fst (getPrincipal sample_env (directory_with [alice, alice]) sample_config (DN alice)
            ''user'' []) =
     Err (Errorf ''More than one result found'' [])
   \<and> error_code (Errorf ''More than one result found'' []) = None"
  using getPrincipal_search [OF sample_lookup_reach(1) sample_lookup_reach(2)
          sample_lookup_reach(3) sample_lookup_reach(4) sample_lookup_reach(5)
          sample_lookup_reach(6) sample_lookup_reach(7), of "[]"]
    getPrincipal_search [OF sample_lookup_reach(1) sample_lookup_reach(2)
          sample_lookup_reach(3) sample_lookup_reach(4) sample_lookup_reach(5)
          sample_lookup_reach(6) sample_lookup_reach(7), of "[alice, alice]"]
  by simp

section \<open>Free-text search: failures of the paged search\<close>

lemma searchLdap_paged:
  assumes dial: "conn_Dial w tr = None"
    and bind: "conn_Bind w (tr @ [EvDial])
                 (GetUserExternalID e (ServiceAccountUsername config) (DefaultLoginDomain config))
                 (ServiceAccountPassword config) = None"
    and tr2: "tr2 = tr @ [EvDial,
                EvBind (GetUserExternalID e (ServiceAccountUsername config)
                          (DefaultLoginDomain config)) (ServiceAccountPassword config)]"
    and paged: "conn_SearchWithPaging w tr2 (pagedRequest e config query scope) 1000 =
                  (results, err)"
  shows "searchLdap e w config query scope tr =
           (case err of
              None \<Rightarrow> searchLdap_results e config scope results
            | Some er \<Rightarrow>
                (case ldapResultCode er of
                   Some rc \<Rightarrow>
                     if rc \<noteq> LDAPResultNoSuchObject
                     then Err (Errorf ''When searching ldap, Failed to search: %s, error: %#v''
                                 [ArgS query, ArgE er])
                     else searchLdap_results e config scope results
                 | None \<Rightarrow> searchLdap_results e config scope results),
            tr2 @ [EvSearchWithPaging (pagedRequest e config query scope) 1000])"
  using dial bind paged
  by (simp add: searchLdap_def Let_def tr2 split: option.splits)

text \<open>
  Claim C5, as amended. For every paged search that \<^verbatim>\<open>searchLdap\<close> issues: a failure that is
  an LDAP error with result code "no such object" is tolerated, no error is returned and the
  entries of the partial result that comes with the failure are mapped as those of a successful
  search are (none when it is empty); a failure that is an LDAP error with any other result
  code is returned to the caller, as an error built by \<^verbatim>\<open>fmt.Errorf\<close> from the query and the
  failure, which has no classification.
\<close>

theorem searchLdap_search_failures:
  assumes dial: "conn_Dial w tr = None"
    and bind: "conn_Bind w (tr @ [EvDial])
                 (GetUserExternalID e (ServiceAccountUsername config) (DefaultLoginDomain config))
                 (ServiceAccountPassword config) = None"
    and tr2: "tr2 = tr @ [EvDial,
                EvBind (GetUserExternalID e (ServiceAccountUsername config)
                          (DefaultLoginDomain config)) (ServiceAccountPassword config)]"
  shows "(\<forall>entries msg.
            conn_SearchWithPaging w tr2 (pagedRequest e config query scope) 1000 =
              (Some entries, Some (LdapError LDAPResultNoSuchObject msg)) \<longrightarrow>
            searchLdap e w config query scope tr =
              (search_entries_loop e config scope entries [],
               tr2 @ [EvSearchWithPaging (pagedRequest e config query scope) 1000]))
         \<and> (\<forall>msg.
            conn_SearchWithPaging w tr2 (pagedRequest e config query scope) 1000 =
              (Some [], Some (LdapError LDAPResultNoSuchObject msg)) \<longrightarrow>
            searchLdap e w config query scope tr =
              (Ok [], tr2 @ [EvSearchWithPaging (pagedRequest e config query scope) 1000]))
         \<and> (\<forall>results rc msg.
            conn_SearchWithPaging w tr2 (pagedRequest e config query scope) 1000 =
              (results, Some (LdapError rc msg)) \<and> rc \<noteq> LDAPResultNoSuchObject \<longrightarrow>
            searchLdap e w config query scope tr =
              (Err (Errorf ''When searching ldap, Failed to search: %s, error: %#v''
                      [ArgS query, ArgE (LdapError rc msg)]),
               tr2 @ [EvSearchWithPaging (pagedRequest e config query scope) 1000])
            \<and> error_code (Errorf ''When searching ldap, Failed to search: %s, error: %#v''
                             [ArgS query, ArgE (LdapError rc msg)]) = None)"
proof (intro conjI allI impI)
  fix entries msg
  assume "conn_SearchWithPaging w tr2 (pagedRequest e config query scope) 1000 =
            (Some entries, Some (LdapError LDAPResultNoSuchObject msg))"
  from searchLdap_paged [OF dial bind tr2 this]
  show "searchLdap e w config query scope tr =
          (search_entries_loop e config scope entries [],
           tr2 @ [EvSearchWithPaging (pagedRequest e config query scope) 1000])"
    by (simp add: searchLdap_results_def)
next
  fix msg
  assume "conn_SearchWithPaging w tr2 (pagedRequest e config query scope) 1000 =
            (Some [], Some (LdapError LDAPResultNoSuchObject msg))"
  from searchLdap_paged [OF dial bind tr2 this]
  show "searchLdap e w config query scope tr =
          (Ok [], tr2 @ [EvSearchWithPaging (pagedRequest e config query scope) 1000])"
    by (simp add: searchLdap_results_def)
next
  fix results rc msg
  assume a: "conn_SearchWithPaging w tr2 (pagedRequest e config query scope) 1000 =
            (results, Some (LdapError rc msg)) \<and> rc \<noteq> LDAPResultNoSuchObject"
  then have p: "conn_SearchWithPaging w tr2 (pagedRequest e config query scope) 1000 =
            (results, Some (LdapError rc msg))" and rc: "rc \<noteq> LDAPResultNoSuchObject"
    by simp_all
  from searchLdap_paged [OF dial bind tr2 p] rc
  show "searchLdap e w config query scope tr =
          (Err (Errorf ''When searching ldap, Failed to search: %s, error: %#v''
                  [ArgS query, ArgE (LdapError rc msg)]),
           tr2 @ [EvSearchWithPaging (pagedRequest e config query scope) 1000])"
    by simp
next
  fix results rc msg
  show "error_code (Errorf ''When searching ldap, Failed to search: %s, error: %#v''
                      [ArgS query, ArgE (LdapError rc msg)]) = None"
    by simp
qed

lemma sample_paged_reach:
  "conn_Dial (directory_paged_failing er) [] = None"
  "conn_Bind (directory_paged_failing er) ([] @ [EvDial])
     (GetUserExternalID sample_env (ServiceAccountUsername sample_config)
        (DefaultLoginDomain sample_config)) (ServiceAccountPassword sample_config) = None"
  "[EvDial, EvBind (''CORP'' @ backslash # ''svc'') ''s3cret''] =
     [] @ [EvDial, EvBind (GetUserExternalID sample_env (ServiceAccountUsername sample_config)
                             (DefaultLoginDomain sample_config))
                     (ServiceAccountPassword sample_config)]"
  "conn_SearchWithPaging (directory_paged_failing er) tr req 1000 = (Some [], Some er)"
  by (simp_all add: sample_defs)

theorem searchLdap_search_failures_witness:
  "searchLdap sample_env (directory_paged_failing (LdapError 32 ''No Such Object''))
     sample_config ''(cn=bob*)'' ''user'' [] =
     (Ok [], [EvDial, EvBind (''CORP'' @ backslash # ''svc'') ''s3cret'',
              EvSearchWithPaging (pagedRequest sample_env sample_config ''(cn=bob*)'' ''user'')
                1000])
   \<and> searchLdap sample_env (directory_paged_failing (LdapError 1 ''Operations error''))
       sample_config ''(cn=bob*)'' ''user'' [] =
     (Err (Errorf ''When searching ldap, Failed to search: %s, error: %#v''
             [ArgS ''(cn=bob*)'', ArgE (LdapError 1 ''Operations error'')]),
      [EvDial, EvBind (''CORP'' @ backslash # ''svc'') ''s3cret'',
       EvSearchWithPaging (pagedRequest sample_env sample_config ''(cn=bob*)'' ''user'') 1000])"
proof -
  have p1: "conn_SearchWithPaging (directory_paged_failing (LdapError 32 ''No Such Object''))
              [EvDial, EvBind (''CORP'' @ backslash # ''svc'') ''s3cret'']
              (pagedRequest sample_env sample_config ''(cn=bob*)'' ''user'') 1000 =
            (Some [], Some (LdapError LDAPResultNoSuchObject ''No Such Object''))"
    by (simp add: sample_defs LDAPResultNoSuchObject_def)
  have p2: "conn_SearchWithPaging (directory_paged_failing (LdapError 1 ''Operations error''))
              [EvDial, EvBind (''CORP'' @ backslash # ''svc'') ''s3cret'']
              (pagedRequest sample_env sample_config ''(cn=bob*)'' ''user'') 1000 =
            (Some [], Some (LdapError 1 ''Operations error''))
            \<and> (1::nat) \<noteq> LDAPResultNoSuchObject"
    by (simp add: sample_defs LDAPResultNoSuchObject_def)
  note t1 = searchLdap_search_failures [OF sample_paged_reach(1) sample_paged_reach(2)
            sample_paged_reach(3), of "LdapError 32 ''No Such Object''" "''(cn=bob*)''" "''user''"]
  note t2 = searchLdap_search_failures [OF sample_paged_reach(1) sample_paged_reach(2)
            sample_paged_reach(3), of "LdapError 1 ''Operations error''" "''(cn=bob*)''" "''user''"]
  from t1 p1
  have r1: "searchLdap sample_env (directory_paged_failing (LdapError 32 ''No Such Object''))
              sample_config ''(cn=bob*)'' ''user'' [] =
            (Ok [], [EvDial, EvBind (''CORP'' @ backslash # ''svc'') ''s3cret''] @
               [EvSearchWithPaging (pagedRequest sample_env sample_config ''(cn=bob*)'' ''user'')
                  1000])"
    by blast
  from t2 p2
  have r2: "searchLdap sample_env (directory_paged_failing (LdapError 1 ''Operations error''))
              sample_config ''(cn=bob*)'' ''user'' [] =
            (Err (Errorf ''When searching ldap, Failed to search: %s, error: %#v''
                    [ArgS ''(cn=bob*)'', ArgE (LdapError 1 ''Operations error'')]),
             [EvDial, EvBind (''CORP'' @ backslash # ''svc'') ''s3cret''] @
               [EvSearchWithPaging (pagedRequest sample_env sample_config ''(cn=bob*)'' ''user'')
                  1000])"
    by blast
  from r1 r2 show ?thesis by simp
qed

text \<open>The claim as stated fails: an LDAP failure with another result code comes back without
  the ServerError code, and a failure that is not an LDAP error is not returned at all.\<close>

theorem searchLdap_search_failures_counterexample:
  "fst (searchLdap sample_env (directory_paged_failing (LdapError 1 ''Operations error''))
          sample_config ''(cn=bob*)'' ''user'' []) =
     Err (Errorf ''When searching ldap, Failed to search: %s, error: %#v''
            [ArgS ''(cn=bob*)'', ArgE (LdapError 1 ''Operations error'')])
   \<and> error_code (Errorf ''When searching ldap, Failed to search: %s, error: %#v''
                    [ArgS ''(cn=bob*)'', ArgE (LdapError 1 ''Operations error'')])
       \<noteq> Some ServerError
   \<and> fst (searchLdap sample_env (directory_paged_failing (OtherError ''connection reset''))
            sample_config ''(cn=bob*)'' ''user'' []) = Ok []"
  using searchLdap_paged [OF sample_paged_reach(1) sample_paged_reach(2) sample_paged_reach(3)
          sample_paged_reach(4), of "LdapError 1 ''Operations error''" "''(cn=bob*)''" "''user''"]
    searchLdap_paged [OF sample_paged_reach(1) sample_paged_reach(2) sample_paged_reach(3)
          sample_paged_reach(4), of "OtherError ''connection reset''" "''(cn=bob*)''" "''user''"]
  by (simp add: searchLdap_results_def LDAPResultNoSuchObject_def)

section \<open>Search filters: escaping\<close>

lemma is_meta_escape_byte: "filter is_meta (escape_byte c) = []"
  by (simp add: escape_byte_def is_meta_def backslash_def)

lemma is_meta_escaped: "filter is_meta (concat (map escape_byte s)) = []"
  by (induction s) (simp_all add: is_meta_escape_byte)

lemma concat_map_empty: "concat (map (\<lambda>x. []) xs) = []"
  by (induction xs) simp_all

lemma foldl_append_concat:
  "foldl (\<lambda>q x. q @ f x) init xs = init @ concat (map f xs)"
  by (induction xs arbitrary: init) simp_all

lemma groupQuery_concat:
  "groupQuery e config groupDN =
     ''(&'' @ ''('' @ ObjectClassAttribute e @ ''='' @ GroupObjectClass config @ '')''
       @ ''(|'' @ concat (map (\<lambda>attrib. ''(distinguishedName='' @ EscapeFilter attrib @ '')'') groupDN)
       @ '')'' @ '')''"
  by (simp only: groupQuery_def Let_def foldl_append_concat append_assoc)

lemma userSearchQuery_concat:
  "userSearchQuery e config name =
     ''(&('' @ ObjectClassAttribute e @ ''='' @ UserObjectClass config @ '')''
       @ ''(|'' @ concat (map (\<lambda>attr. ''('' @ attr @ ''='' @ name @ ''*)'')
                           (Split (UserSearchAttribute config) (CHR ''|'')))
       @ ''))''"
  by (simp only: userSearchQuery_def Let_def foldl_append_concat append_assoc)

lemma is_meta_groupQuery:
  "filter is_meta (groupQuery e config groupDN) =
     filter is_meta (groupQuery e config (map (\<lambda>dn. []) groupDN))"
  by (simp add: groupQuery_concat filter_concat comp_def EscapeFilter_def is_meta_escape_byte
        is_meta_def concat_map_empty)

lemma is_meta_userSearchQuery:
  "filter is_meta (userSearchQuery e config (EscapeLDAPSearchFilter name)) =
     filter is_meta (userSearchQuery e config [])"
  by (simp add: userSearchQuery_concat filter_concat comp_def EscapeLDAPSearchFilter_def
        is_meta_escape_byte is_meta_def concat_map_empty)

lemma searchPrincipals_user:
  "searchPrincipals e w config name ''user'' tr =
     searchUser e w config (EscapeLDAPSearchFilter name) tr"
  by (cases "searchUser e w config (EscapeLDAPSearchFilter name) tr")
     (simp add: searchPrincipals_def Let_def split: result.splits)

lemma searchPrincipals_group:
  "searchPrincipals e w config name ''group'' tr =
     searchGroup e w config (EscapeLDAPSearchFilter name) tr"
  by (cases "searchGroup e w config (EscapeLDAPSearchFilter name) tr")
     (simp add: searchPrincipals_def Let_def split: result.splits)

lemma char_of_specials:
  "char_of (92::nat) = CHR 0x5C" "char_of (42::nat) = CHR ''*''" "char_of (40::nat) = CHR ''(''"
  "char_of (41::nat) = CHR '')''" "char_of (0::nat) = CHR 0x00"
proof -
  have "char_of (of_char (CHR 0x5C) :: nat) = CHR 0x5C" by (rule char_of_char)
  then show "char_of (92::nat) = CHR 0x5C" by simp
  have "char_of (of_char (CHR ''*'') :: nat) = CHR ''*''" by (rule char_of_char)
  then show "char_of (42::nat) = CHR ''*''" by simp
  have "char_of (of_char (CHR ''('') :: nat) = CHR ''(''" by (rule char_of_char)
  then show "char_of (40::nat) = CHR ''(''" by simp
  have "char_of (of_char (CHR '')'') :: nat) = CHR '')''" by (rule char_of_char)
  then show "char_of (41::nat) = CHR '')''" by simp
  have "char_of (of_char (CHR 0x00) :: nat) = CHR 0x00" by (rule char_of_char)
  then show "char_of (0::nat) = CHR 0x00" by simp
qed

lemma unescape_escape_byte:
  "unescape (escape_byte c @ rest) = map_option ((#) c) (unescape rest)"
  by (simp add: escape_byte_def is_meta_def backslash_def hex_val_def char_of_specials)

lemma unescape_escaped: "unescape (concat (map escape_byte s)) = Some s"
  by (induction s) (simp_all add: unescape_escape_byte)

lemma escape_specials:
  "concat (map escape_byte [backslash, CHR ''*'', CHR ''('', CHR '')'', CHR 0x00, CHR ''a'']) =
     backslash # ''5c'' @ backslash # ''2a'' @ backslash # ''28'' @ backslash # ''29''
       @ backslash # ''00'' @ ''a''"
  by (simp add: escape_byte_def backslash_def)

lemma getGroupPrincipals_events:
  "snd (getGroupPrincipals e w config groupDN tr) =
     tr @ EvBind (GetUserExternalID e (ServiceAccountUsername config) (DefaultLoginDomain config))
            (ServiceAccountPassword config)
        # (case conn_Bind w tr
                  (GetUserExternalID e (ServiceAccountUsername config) (DefaultLoginDomain config))
                  (ServiceAccountPassword config) of
             Some er \<Rightarrow> []
           | None \<Rightarrow> [EvSearch (groupRequest e config groupDN)])"
  by (simp add: getGroupPrincipals_def Let_def split: option.splits sum.splits)

lemma searchLdap_events:
  "snd (searchLdap e w config query scope tr) =
     tr @ EvDial
        # (case conn_Dial w tr of
             Some er \<Rightarrow> []
           | None \<Rightarrow>
               EvBind (GetUserExternalID e (ServiceAccountUsername config)
                         (DefaultLoginDomain config)) (ServiceAccountPassword config)
               # (case conn_Bind w (tr @ [EvDial])
                         (GetUserExternalID e (ServiceAccountUsername config)
                            (DefaultLoginDomain config)) (ServiceAccountPassword config) of
                    Some er \<Rightarrow> []
                  | None \<Rightarrow> [EvSearchWithPaging (pagedRequest e config query scope) 1000]))"
  by (simp add: searchLdap_def Let_def split: option.splits prod.splits)

lemma searchPrincipals_all_kinds:
  "searchPrincipals e w config s kind tr =
     (if kind = [] then
        (case searchLdap e w config (userSearchQuery e config (EscapeLDAPSearchFilter s))
                (UserScope e) tr of
           (Err er, tr1) \<Rightarrow> (Err er, tr1)
         | (Panic m, tr1) \<Rightarrow> (Panic m, tr1)
         | (Ok principals, tr1) \<Rightarrow>
             (case searchLdap e w config (groupSearchQuery e config (EscapeLDAPSearchFilter s))
                     (GroupScope e) tr1 of
                (Err er, tr2) \<Rightarrow> (Err er, tr2)
              | (Panic m, tr2) \<Rightarrow> (Panic m, tr2)
              | (Ok princs, tr2) \<Rightarrow> (Ok (principals @ princs), tr2)))
      else if kind = ''user'' then
        searchLdap e w config (userSearchQuery e config (EscapeLDAPSearchFilter s)) (UserScope e) tr
      else if kind = ''group'' then
        searchLdap e w config (groupSearchQuery e config (EscapeLDAPSearchFilter s)) (GroupScope e)
          tr
      else (Ok [], tr))"
proof (cases "kind = []")
  case True
  then show ?thesis
    by (simp add: searchPrincipals_def searchUser_def searchGroup_def Let_def
          split: prod.splits result.splits)
next
  case False
  note ne = this
  show ?thesis
  proof (cases "kind = ''user''")
    case True
    then show ?thesis
      by (cases "searchLdap e w config (userSearchQuery e config (EscapeLDAPSearchFilter s))
                   (UserScope e) tr")
         (simp add: searchPrincipals_def searchUser_def Let_def split: result.splits)
  next
    case False
    note nu = this
    show ?thesis
    proof (cases "kind = ''group''")
      case True
      then show ?thesis
        by (cases "searchLdap e w config (groupSearchQuery e config (EscapeLDAPSearchFilter s))
                     (GroupScope e) tr")
           (simp add: searchPrincipals_def searchGroup_def Let_def split: result.splits)
    next
      case False
      with ne nu show ?thesis by (simp add: searchPrincipals_def Let_def)
    qed
  qed
qed

lemma request_filters:
  "Filter (loginRequest e config username) = loginQuery config username"
  "Filter (groupRequest e config groupDN) = groupQuery e config groupDN"
  "Filter (pagedRequest e config query scope) = query"
  by (simp_all add: loginRequest_def groupRequest_def pagedRequest_def NewSearchRequest_def Let_def)

lemma loginUser_search_event:
  assumes pw: "Password cred \<noteq> []"
    and dial: "conn_Dial w tr = None"
    and svc: "serviceAccountCheck e w config (tr @ [EvDial]) = (None, tr2)"
    and bind: "conn_Bind w tr2 (GetUserExternalID e (Username cred) (DefaultLoginDomain config))
                 (Password cred) = None"
  shows "\<exists>rest. snd (loginUser e w config cred tr) =
           tr2 @ [EvBind (GetUserExternalID e (Username cred) (DefaultLoginDomain config))
                    (Password cred),
                  EvSearch (loginRequest e config (Username cred))] @ rest"
proof -
  let ?ext = "GetUserExternalID e (Username cred) (DefaultLoginDomain config)"
  let ?tr3 = "tr2 @ [EvBind ?ext (Password cred)]"
  let ?req = "loginRequest e config (Username cred)"
  obtain r t where ur: "userRecord e w config ?req ?tr3 = (r, t)"
    by (cases "userRecord e w config ?req ?tr3")
  from userRecord_trace [of e w config ?req ?tr3] ur
  obtain rest where t: "t = ?tr3 @ [EvSearch ?req] @ rest" by auto
  have "snd (loginUser e w config cred tr) = t"
    using pw dial svc bind ur
    by (simp add: loginUser_def Let_def split: result.splits prod.splits option.splits)
  then have "snd (loginUser e w config cred tr) =
               tr2 @ [EvBind ?ext (Password cred), EvSearch ?req] @ rest"
    using t by simp
  then show ?thesis by blast
qed

lemma sample_filters:
  "loginQuery sample_config ''a)(b'' =
     ''(sAMAccountName=a'' @ backslash # ''29'' @ backslash # ''28b)''"
  "groupQuery sample_env sample_config [''a)(b''] =
     ''(&(objectClass=group)(|(distinguishedName=a'' @ backslash # ''29'' @ backslash
       # ''28b)))''"
  "userSearchQuery sample_env sample_config (EscapeLDAPSearchFilter ''a)(b'') =
     ''(&(objectClass=person)(|(sAMAccountName=a'' @ backslash # ''29'' @ backslash # ''28b*)(sn=a''
       @ backslash # ''29'' @ backslash # ''28b*)(givenName=a'' @ backslash # ''29'' @ backslash
       # ''28b*)))''"
  "groupSearchQuery sample_env sample_config (EscapeLDAPSearchFilter ''a)(b'') =
     ''(&(sAMAccountName=*a'' @ backslash # ''29'' @ backslash # ''28b*)(objectClass=group))''"
  by (simp_all add: loginQuery_def groupQuery_def userSearchQuery_def groupSearchQuery_def
        samName_def EscapeFilter_def EscapeLDAPSearchFilter_def escape_byte_def sample_config_def
        sample_env_def backslash_def Let_def)

text \<open>
  Claim C8. Every untrusted input is escaped before it is put into a search filter, and the
  filters built are the ones sent. An escaped value reads back as the input and holds no
  parenthesis, asterisk or NUL that is not escaped. The user search filter of a login is the
  login attribute compared with the escaped account name, and the login sends it; the group
  filter of a batch has one clause per DN with the DN escaped, and \<^verbatim>\<open>getGroupPrincipals\<close>
  sends it whenever the bind succeeds; \<^verbatim>\<open>searchPrincipals\<close> escapes the search text and,
  for every kind (none, user, group), the paged searches it makes carry the free-text filters
  built from the escaped text. The parentheses and wildcards of each filter are therefore
  those of the filter built from empty values. The filters built from \<^verbatim>\<open>a)(b\<close> have both
  parentheses of the input escaped.
\<close>

theorem filters_escape_untrusted_input:
  "unescape (EscapeFilter s) = Some s
   \<and> unescape (EscapeLDAPSearchFilter s) = Some s
   \<and> filter is_meta (EscapeFilter s) = []
   \<and> filter is_meta (EscapeLDAPSearchFilter s) = []
   \<and> EscapeFilter [backslash, CHR ''*'', CHR ''('', CHR '')'', CHR 0x00, CHR ''a''] =
       backslash # ''5c'' @ backslash # ''2a'' @ backslash # ''28'' @ backslash # ''29''
         @ backslash # ''00'' @ ''a''
   \<and> EscapeLDAPSearchFilter [backslash, CHR ''*'', CHR ''('', CHR '')'', CHR 0x00, CHR ''a''] =
       backslash # ''5c'' @ backslash # ''2a'' @ backslash # ''28'' @ backslash # ''29''
         @ backslash # ''00'' @ ''a''
   \<and> loginQuery config username =
       ''('' @ UserLoginAttribute config @ ''='' @ EscapeFilter (samName username) @ '')''
   \<and> groupQuery e config groupDN =
       ''(&'' @ ''('' @ ObjectClassAttribute e @ ''='' @ GroupObjectClass config @ '')''
         @ ''(|'' @ concat (map (\<lambda>dn. ''(distinguishedName='' @ EscapeFilter dn @ '')'') groupDN)
         @ '')'' @ '')''
   \<and> userSearchQuery e config (EscapeLDAPSearchFilter s) =
       ''(&('' @ ObjectClassAttribute e @ ''='' @ UserObjectClass config @ '')''
         @ ''(|'' @ concat (map (\<lambda>attr. ''('' @ attr @ ''='' @ EscapeLDAPSearchFilter s @ ''*)'')
                             (Split (UserSearchAttribute config) (CHR ''|'')))
         @ ''))''
   \<and> groupSearchQuery e config (EscapeLDAPSearchFilter s) =
       ''(&('' @ GroupSearchAttribute config @ ''=*'' @ EscapeLDAPSearchFilter s @ ''*)(''
         @ ObjectClassAttribute e @ ''='' @ GroupObjectClass config @ ''))''
   \<and> Filter (loginRequest e config username) = loginQuery config username
   \<and> Filter (groupRequest e config groupDN) = groupQuery e config groupDN
   \<and> Filter (pagedRequest e config query scope) = query
   \<and> (Password cred \<noteq> [] \<and> conn_Dial w tr = None
        \<and> serviceAccountCheck e w config (tr @ [EvDial]) = (None, tr2)
        \<and> conn_Bind w tr2 (GetUserExternalID e (Username cred) (DefaultLoginDomain config))
              (Password cred) = None \<longrightarrow>
       (\<exists>rest. snd (loginUser e w config cred tr) =
          tr2 @ [EvBind (GetUserExternalID e (Username cred) (DefaultLoginDomain config))
                   (Password cred),
                 EvSearch (loginRequest e config (Username cred))] @ rest))
   \<and> snd (getGroupPrincipals e w config groupDN tr) =
       tr @ EvBind (GetUserExternalID e (ServiceAccountUsername config) (DefaultLoginDomain config))
              (ServiceAccountPassword config)
          # (case conn_Bind w tr
                    (GetUserExternalID e (ServiceAccountUsername config)
                       (DefaultLoginDomain config))
                    (ServiceAccountPassword config) of
               Some er \<Rightarrow> []
             | None \<Rightarrow> [EvSearch (groupRequest e config groupDN)])
   \<and> snd (searchLdap e w config query scope tr) =
       tr @ EvDial
          # (case conn_Dial w tr of
               Some er \<Rightarrow> []
             | None \<Rightarrow>
                 EvBind (GetUserExternalID e (ServiceAccountUsername config)
                           (DefaultLoginDomain config)) (ServiceAccountPassword config)
                 # (case conn_Bind w (tr @ [EvDial])
                           (GetUserExternalID e (ServiceAccountUsername config)
                              (DefaultLoginDomain config)) (ServiceAccountPassword config) of
                      Some er \<Rightarrow> []
                    | None \<Rightarrow> [EvSearchWithPaging (pagedRequest e config query scope) 1000]))
   \<and> searchPrincipals e w config s kind tr =
       (if kind = [] then
          (case searchLdap e w config (userSearchQuery e config (EscapeLDAPSearchFilter s))
                  (UserScope e) tr of
             (Err er, tr1) \<Rightarrow> (Err er, tr1)
           | (Panic m, tr1) \<Rightarrow> (Panic m, tr1)
           | (Ok principals, tr1) \<Rightarrow>
               (case searchLdap e w config (groupSearchQuery e config (EscapeLDAPSearchFilter s))
                       (GroupScope e) tr1 of
                  (Err er, tr2) \<Rightarrow> (Err er, tr2)
                | (Panic m, tr2) \<Rightarrow> (Panic m, tr2)
                | (Ok princs, tr2) \<Rightarrow> (Ok (principals @ princs), tr2)))
        else if kind = ''user'' then
          searchLdap e w config (userSearchQuery e config (EscapeLDAPSearchFilter s))
            (UserScope e) tr
        else if kind = ''group'' then
          searchLdap e w config (groupSearchQuery e config (EscapeLDAPSearchFilter s))
            (GroupScope e) tr
        else (Ok [], tr))
   \<and> filter is_meta (loginQuery config username) =
       filter is_meta (''('' @ UserLoginAttribute config @ ''='' @ '')'')
   \<and> filter is_meta (groupQuery e config groupDN) =
       filter is_meta (groupQuery e config (map (\<lambda>dn. []) groupDN))
   \<and> filter is_meta (userSearchQuery e config (EscapeLDAPSearchFilter s)) =
       filter is_meta (userSearchQuery e config [])
   \<and> filter is_meta (groupSearchQuery e config (EscapeLDAPSearchFilter s)) =
       filter is_meta (groupSearchQuery e config [])
   \<and> searchPrincipals e w config s ''user'' tr =
       searchUser e w config (EscapeLDAPSearchFilter s) tr
   \<and> searchPrincipals e w config s ''group'' tr =
       searchGroup e w config (EscapeLDAPSearchFilter s) tr
   \<and> loginQuery sample_config ''a)(b'' =
       ''(sAMAccountName=a'' @ backslash # ''29'' @ backslash # ''28b)''
   \<and> groupQuery sample_env sample_config [''a)(b''] =
       ''(&(objectClass=group)(|(distinguishedName=a'' @ backslash # ''29'' @ backslash
         # ''28b)))''
   \<and> userSearchQuery sample_env sample_config (EscapeLDAPSearchFilter ''a)(b'') =
       ''(&(objectClass=person)(|(sAMAccountName=a'' @ backslash # ''29'' @ backslash
         # ''28b*)(sn=a'' @ backslash # ''29'' @ backslash # ''28b*)(givenName=a'' @ backslash
         # ''29'' @ backslash # ''28b*)))''
   \<and> groupSearchQuery sample_env sample_config (EscapeLDAPSearchFilter ''a)(b'') =
       ''(&(sAMAccountName=*a'' @ backslash # ''29'' @ backslash # ''28b*)(objectClass=group))''"
proof -
  have f1: "unescape (EscapeFilter s) = Some s"
    by (simp add: EscapeFilter_def unescape_escaped)
  have f2: "unescape (EscapeLDAPSearchFilter s) = Some s"
    by (simp add: EscapeLDAPSearchFilter_def unescape_escaped)
  have f3: "filter is_meta (EscapeFilter s) = []"
    by (simp add: EscapeFilter_def is_meta_escaped)
  have f4: "filter is_meta (EscapeLDAPSearchFilter s) = []"
    by (simp add: EscapeLDAPSearchFilter_def is_meta_escaped)
  have f5: "EscapeFilter [backslash, CHR ''*'', CHR ''('', CHR '')'', CHR 0x00, CHR ''a''] =
       backslash # ''5c'' @ backslash # ''2a'' @ backslash # ''28'' @ backslash # ''29''
         @ backslash # ''00'' @ ''a''"
    unfolding EscapeFilter_def by (rule escape_specials)
  have f6: "EscapeLDAPSearchFilter [backslash, CHR ''*'', CHR ''('', CHR '')'', CHR 0x00, CHR ''a''] =
       backslash # ''5c'' @ backslash # ''2a'' @ backslash # ''28'' @ backslash # ''29''
         @ backslash # ''00'' @ ''a''"
    unfolding EscapeLDAPSearchFilter_def by (rule escape_specials)
  have f7: "loginQuery config username =
       ''('' @ UserLoginAttribute config @ ''='' @ EscapeFilter (samName username) @ '')''"
    by (simp only: loginQuery_def)
  have f8: "groupSearchQuery e config (EscapeLDAPSearchFilter s) =
       ''(&('' @ GroupSearchAttribute config @ ''=*'' @ EscapeLDAPSearchFilter s @ ''*)(''
         @ ObjectClassAttribute e @ ''='' @ GroupObjectClass config @ ''))''"
    by (simp only: groupSearchQuery_def)
  have f9: "Password cred \<noteq> [] \<and> conn_Dial w tr = None
        \<and> serviceAccountCheck e w config (tr @ [EvDial]) = (None, tr2)
        \<and> conn_Bind w tr2 (GetUserExternalID e (Username cred) (DefaultLoginDomain config))
              (Password cred) = None \<longrightarrow>
       (\<exists>rest. snd (loginUser e w config cred tr) =
          tr2 @ [EvBind (GetUserExternalID e (Username cred) (DefaultLoginDomain config))
                   (Password cred),
                 EvSearch (loginRequest e config (Username cred))] @ rest)"
    using loginUser_search_event [of cred w tr e config tr2] by blast
  have f10: "filter is_meta (loginQuery config username) =
          filter is_meta (''('' @ UserLoginAttribute config @ ''='' @ '')'')"
    by (simp add: loginQuery_def EscapeFilter_def is_meta_escaped)
  have f11: "filter is_meta (groupSearchQuery e config (EscapeLDAPSearchFilter s)) =
          filter is_meta (groupSearchQuery e config [])"
    by (simp add: groupSearchQuery_def EscapeLDAPSearchFilter_def is_meta_escaped)
  show ?thesis
    by (intro conjI f1 f2 f3 f4 f5 f6 f7 f8 f9 f10 f11 groupQuery_concat userSearchQuery_concat
          request_filters getGroupPrincipals_events searchLdap_events searchPrincipals_all_kinds
          is_meta_groupQuery is_meta_userSearchQuery searchPrincipals_user
          searchPrincipals_group sample_filters)
qed

theorem filters_escape_untrusted_input_witness:
  "unescape (EscapeFilter ''a)(b'') = Some ''a)(b''
   \<and> EscapeFilter ''a)(b'' = ''a'' @ backslash # ''29'' @ backslash # ''28b''
   \<and> Filter (loginRequest sample_env sample_config ''a)(b'') =
       ''(sAMAccountName=a'' @ backslash # ''29'' @ backslash # ''28b)''
   \<and> (\<exists>rest. snd (loginUser sample_env (directory_with [alice]) sample_config inject_login []) =
          [EvDial, EvBind (''CORP'' @ backslash # ''a)(b'') ''pw'',
           EvSearch (loginRequest sample_env sample_config ''a)(b'')] @ rest)"
proof -
  note inst = filters_escape_untrusted_input [of "''a)(b''" sample_config "''a)(b''" sample_env
      "[''a)(b'']" "[]" "[]" inject_login "directory_with [alice]" "[]" "[EvDial]" "[]"]
  have reach: "Password inject_login \<noteq> [] \<and> conn_Dial (directory_with [alice]) [] = None
        \<and> serviceAccountCheck sample_env (directory_with [alice]) sample_config ([] @ [EvDial]) =
            (None, [EvDial])
        \<and> conn_Bind (directory_with [alice]) [EvDial]
              (GetUserExternalID sample_env (Username inject_login)
                 (DefaultLoginDomain sample_config))
              (Password inject_login) = None"
    by (simp add: inject_login_def serviceAccountCheck_def sample_defs)
  have u: "Username inject_login = ''a)(b''" and p: "Password inject_login = ''pw''"
    by (simp_all add: inject_login_def)
  have x: "GetUserExternalID sample_env ''a)(b'' (DefaultLoginDomain sample_config) =
             ''CORP'' @ backslash # ''a)(b''"
    by (simp add: sample_defs)
  from inst have a: "unescape (EscapeFilter ''a)(b'') = Some ''a)(b''" by blast
  have b: "EscapeFilter ''a)(b'' = ''a'' @ backslash # ''29'' @ backslash # ''28b''"
    by (simp add: EscapeFilter_def escape_byte_def backslash_def)
  from inst have "Filter (loginRequest sample_env sample_config ''a)(b'') =
                    loginQuery sample_config ''a)(b''"
    by blast
  moreover from inst have "loginQuery sample_config ''a)(b'' =
       ''(sAMAccountName=a'' @ backslash # ''29'' @ backslash # ''28b)''"
    by blast
  ultimately have c: "Filter (loginRequest sample_env sample_config ''a)(b'') =
       ''(sAMAccountName=a'' @ backslash # ''29'' @ backslash # ''28b)''"
    by simp
  from inst reach
  have "\<exists>rest. snd (loginUser sample_env (directory_with [alice]) sample_config inject_login []) =
          [EvDial] @ [EvBind (GetUserExternalID sample_env (Username inject_login)
                                (DefaultLoginDomain sample_config)) (Password inject_login),
                      EvSearch (loginRequest sample_env sample_config (Username inject_login))]
            @ rest"
    by blast
  then have d: "\<exists>rest. snd (loginUser sample_env (directory_with [alice]) sample_config
                           inject_login []) =
          [EvDial, EvBind (''CORP'' @ backslash # ''a)(b'') ''pw'',
           EvSearch (loginRequest sample_env sample_config ''a)(b'')] @ rest"
    unfolding u p x by simp
  show ?thesis by (intro conjI a b c d)
qed

end
